theory Spec2Isabelle
  imports Main
begin

section \<open>dd-scroller: scroll targets and the Scroller controller\<close>

text \<open>
  A shallow embedding of the two source files of the repository: the side helper
  \<^verbatim>\<open>scrollToSide\<close> and the class \<^verbatim>\<open>Scroller\<close>.

  Pixel quantities (offsets, sizes, tick deltas) are JavaScript numbers that the host
  reports as whole pixels; they are modelled as \<^typ>\<open>int\<close>, so that subtraction and
  comparison are exact. The code is taken to run in a browser (\<^verbatim>\<open>HAS_WINDOW\<close> is true).
\<close>

subsection \<open>Shared types\<close>

text \<open>
  The failures raised through \<^verbatim>\<open>error(...)\<close>, named after the kinds of the
  specification: \<^verbatim>\<open>'missing scrolling element'\<close> is \<open>InvalidTarget\<close>,
  \<^verbatim>\<open>'already destroyed.'\<close> is \<open>AlreadyDestroyed\<close>, \<^verbatim>\<open>'missing container'\<close> is
  \<open>MissingContainer\<close>. \<open>TypeError\<close> is the runtime failure of reading or writing a
  property of \<^verbatim>\<open>undefined\<close>.
\<close>

datatype error = InvalidTarget | AlreadyDestroyed | MissingContainer | TypeError

text \<open>The live properties of a DOM element, as the code reads and writes them.\<close>

record Element =
  clientWidth :: int
  clientHeight :: int
  el_scrollWidth :: int
  el_scrollHeight :: int
  el_scrollTop :: int
  el_scrollLeft :: int
  el_isDocumentElement :: bool
  el_isBodyElement :: bool

text \<open>\<^verbatim>\<open>Partial<ScrollPosition>\<close>: an axis that is not set is left where it is.\<close>

record ScrollPosition =
  pos_x :: "int option"
  pos_y :: "int option"

subsection \<open>Array helpers\<close>

text \<open>
  \<^verbatim>\<open>Array.prototype.includes\<close>, \<^verbatim>\<open>indexOf\<close> (\<open>None\<close> for \<open>-1\<close>) and
  \<^verbatim>\<open>splice(index, 1)\<close>. \<^verbatim>\<open>includes\<close> compares with SameValueZero, which is
  equality on the values of the model. \<^verbatim>\<open>indexOf\<close> compares with \<^verbatim>\<open>===\<close>, under
  which one value, \<^verbatim>\<open>NaN\<close>, is not equal to itself; that comparison is its first
  argument here.
\<close>

primrec arrIncludes :: "'a list \<Rightarrow> 'a \<Rightarrow> bool" where
  "arrIncludes [] y = False"
| "arrIncludes (x # xs) y = (x = y \<or> arrIncludes xs y)"

primrec indexOf :: "('a \<Rightarrow> 'a \<Rightarrow> bool) \<Rightarrow> 'a list \<Rightarrow> 'a \<Rightarrow> nat option" where
  "indexOf eq [] y = None"
| "indexOf eq (x # xs) y = (if eq x y then Some 0 else map_option Suc (indexOf eq xs y))"

primrec splice1 :: "nat \<Rightarrow> 'a list \<Rightarrow> 'a list" where
  "splice1 i [] = []"
| "splice1 i (x # xs) = (case i of 0 \<Rightarrow> xs | Suc j \<Rightarrow> x # splice1 j xs)"

subsection \<open>scrollToSide\<close>

datatype ScrollSide = SideTop | SideBottom | SideLeft | SideRight

text \<open>The argument \<^verbatim>\<open>targets\<close> is one side or an array of sides.\<close>

datatype ScrollToSideTargets = OneSide ScrollSide | Sides "ScrollSide list"

fun sidesOf :: "ScrollToSideTargets \<Rightarrow> ScrollSide list" where
  "sidesOf (OneSide t) = [t]"
| "sidesOf (Sides ts) = ts"

text \<open>
  \<^verbatim>\<open>scrollToSide\<close> builds a position and hands it to \<^verbatim>\<open>scrollTo\<close>. The model returns
  that position (or the failure thrown before \<^verbatim>\<open>scrollTo\<close> is reached). The second
  argument is what \<^verbatim>\<open>$(container)\<close> resolves to, \<open>None\<close> when nothing is found; it
  is only consulted when a right or bottom side is requested.
\<close>

definition scrollToSide ::
  "ScrollToSideTargets \<Rightarrow> Element option \<Rightarrow> error + ScrollPosition" where
  "scrollToSide targets container =
     (let sides = sidesOf targets;
          position = \<lparr>pos_x = None, pos_y = None\<rparr>;
          hasRight = arrIncludes sides SideRight;
          hasBottom = arrIncludes sides SideBottom;
          position = (if arrIncludes sides SideTop then position\<lparr>pos_y := Some 0\<rparr>
                      else if arrIncludes sides SideLeft then position\<lparr>pos_x := Some 0\<rparr>
                      else position)
      in if hasRight \<or> hasBottom then
           (case container of
              None \<Rightarrow> Inl MissingContainer
            | Some c \<Rightarrow>
                (let position = (if hasRight then position\<lparr>pos_x := Some (el_scrollWidth c)\<rparr>
                                 else position);
                     position = (if hasBottom then position\<lparr>pos_y := Some (el_scrollHeight c)\<rparr>
                                 else position)
                 in Inr position))
         else Inr position)"

definition scrollToTop :: "Element option \<Rightarrow> error + ScrollPosition" where
  "scrollToTop container = scrollToSide (OneSide SideTop) container"

definition scrollToRight :: "Element option \<Rightarrow> error + ScrollPosition" where
  "scrollToRight container = scrollToSide (OneSide SideRight) container"

definition scrollToBottom :: "Element option \<Rightarrow> error + ScrollPosition" where
  "scrollToBottom container = scrollToSide (OneSide SideBottom) container"

definition scrollToLeft :: "Element option \<Rightarrow> error + ScrollPosition" where
  "scrollToLeft container = scrollToSide (OneSide SideLeft) container"

subsection \<open>The Scroller controller: data\<close>

datatype ScrollAxis = AxisX | AxisY

datatype ScrollYDirection = DirTop | DirBottom

datatype ScrollXDirection = DirLeft | DirRight

datatype ScrollDirection = YDir ScrollYDirection | XDir ScrollXDirection

datatype ScrollerState = Pending | Ready | Running | Destroyed

record ScrollerPayload =
  p_top :: int
  p_left :: int
  p_bottom :: int
  p_right :: int
  p_axis :: ScrollAxis
  p_direction :: ScrollDirection
  p_directionX :: ScrollXDirection
  p_directionY :: ScrollYDirection
  p_tickedX :: int
  p_tickedY :: int
  p_totalX :: int
  p_totalY :: int

text \<open>The three events of \<^verbatim>\<open>ScrollerScrollEventMap\<close>, the argument of \<^verbatim>\<open>_triggerScrollTick\<close>.\<close>

datatype ScrollTick = ScrollStart | Scroll | ScrollEnd

text \<open>\<^verbatim>\<open>ScrollerEventMap\<close>: every event the controller emits, with its payload.\<close>

datatype ScrollerEvent =
    EvReady
  | EvChangeState ScrollerState
  | EvResize int int
  | EvChangeAxis ScrollAxis
  | EvChangeLastDirection ScrollDirection
  | EvChangeLastYDirection ScrollYDirection
  | EvChangeLastXDirection ScrollXDirection
  | EvTick ScrollTick ScrollerPayload

text \<open>
  Elements are referred to by reference; the host keeps their live properties. A
  \<^verbatim>\<open>ScrollResult\<close> is the handle of one animation of the engine.
\<close>

type_synonym ElementRef = nat

type_synonym ScrollResult = nat

text \<open>
  \<^verbatim>\<open>ScrollStopper = number | string | Object | Symbol\<close>. Objects and symbols are
  compared by identity, and identities are numbered. The numbers are the integers and
  \<^verbatim>\<open>NaN\<close>. \<open>strictEquals\<close> is \<^verbatim>\<open>===\<close> on these values: equality, except that
  \<^verbatim>\<open>NaN\<close> equals nothing.
\<close>

datatype ScrollStopper =
    StopperNumber int
  | StopperNaN
  | StopperString string
  | StopperObject nat
  | StopperSymbol nat

definition strictEquals :: "ScrollStopper \<Rightarrow> ScrollStopper \<Rightarrow> bool" where
  "strictEquals a b = (a = b \<and> a \<noteq> StopperNaN)"

datatype AnimStatus = InFlight | Cancelled | Completed

text \<open>
  A resolve function kept in \<^verbatim>\<open>_readyResolvers\<close> belongs either to the \<^verbatim>\<open>await\<close> of
  \<^verbatim>\<open>start\<close> or to an outside caller of \<^verbatim>\<open>ready()\<close>. A promise reaction waiting on
  the job queue of the event loop is the resumption of such a waiter, or the
  \<^verbatim>\<open>then\<close> callback that \<^verbatim>\<open>_setScrollToResult\<close> registers.
\<close>

datatype Waiter = StartWaiter | ReadyWaiter nat

datatype Job = Resume Waiter | ClearScrollToResult

record ScrollSizeOvserverSetting =
  ob_interval :: int
  ob_width :: bool
  ob_height :: bool

text \<open>
  The part of the environment the controller reads and writes: the DOM, the timers, the
  job queue, the visibility service, the results of the animation engine and the
  host-level scroll suppression that \<^verbatim>\<open>enableScroll\<close>/\<^verbatim>\<open>disableScroll\<close> switch.
\<close>

record Host =
  dom :: "ElementRef \<Rightarrow> Element"
  docClientWidth :: int
  docClientHeight :: int
  querySelector :: "string \<Rightarrow> ElementRef option"
  scrollingElement :: "ElementRef option"
  defaultContainer :: "ElementRef option"
  isVisible :: bool
  timers :: "nat list"
  nextTimerId :: nat
  jobs :: "Job list"
  results :: "AnimStatus list"
  scrollSuppressed :: "ElementRef list"

text \<open>
  The fields of the class, without the leading underscore of the private ones. The
  listener fields say whether the listener is defined. \<open>emitted\<close> is the sequence of
  \<^verbatim>\<open>emit\<close> calls made so far. Observer objects only receive copies of the getters
  (\<^verbatim>\<open>_syncToObservers\<close>); that copying does not touch the controller and is left out,
  together with the \<^verbatim>\<open>_observers\<close> list and the two records of default options.
\<close>

record Scroller =
  scrollingJudgeInterval :: int
  baseAxis :: ScrollAxis
  scrollSizeOvserver :: "ScrollSizeOvserverSetting option"
  el :: "ElementRef option"
  isDocumentElement :: bool
  isBodyElement :: bool
  isRootElement :: bool
  state :: ScrollerState
  containerWidth :: int
  containerHeight :: int
  scrollWidth :: int
  scrollHeight :: int
  scrollTop :: int
  scrollRight :: int
  scrollBottom :: int
  scrollLeft :: int
  lastAxis :: ScrollAxis
  lastDirection :: ScrollDirection
  lastYDirection :: ScrollYDirection
  lastXDirection :: ScrollXDirection
  nowScrolling :: bool
  readyResolvers :: "Waiter list"
  scrollingJudgeTimerId :: "nat option"
  startX :: int
  startY :: int
  tickedX :: int
  tickedY :: int
  lastTotalX :: int
  lastTotalY :: int
  scrollListener :: bool
  resizeListener :: bool
  resizeObserver :: bool
  scrollToResult :: "ScrollResult option"
  scrollStoppers :: "ScrollStopper list"
  scrollSizeOvserverPollingId :: "nat option"
  scrollSizeOvserverSuspended :: bool
  visibilityListener :: bool
  emitted :: "ScrollerEvent list"

subsection \<open>Getters\<close>

definition isPending :: "Scroller \<Rightarrow> bool" where
  "isPending s = (state s = Pending)"

definition isReady :: "Scroller \<Rightarrow> bool" where
  "isReady s = (state s = Ready)"

definition isRunning :: "Scroller \<Rightarrow> bool" where
  "isRunning s = (state s = Running)"

definition isDestroyed :: "Scroller \<Rightarrow> bool" where
  "isDestroyed s = (state s = Destroyed)"

definition scrollEnabled :: "Scroller \<Rightarrow> bool" where
  "scrollEnabled s = (length (scrollStoppers s) = 0)"

definition scrollableX :: "Scroller \<Rightarrow> bool" where
  "scrollableX s = (scrollWidth s > containerWidth s)"

definition scrollableY :: "Scroller \<Rightarrow> bool" where
  "scrollableY s = (scrollHeight s > containerHeight s)"

definition lastPayload :: "Scroller \<Rightarrow> ScrollerPayload" where
  "lastPayload s =
     \<lparr>p_top = scrollTop s, p_left = scrollLeft s, p_bottom = scrollBottom s,
      p_right = scrollRight s, p_axis = lastAxis s, p_direction = lastDirection s,
      p_directionX = lastXDirection s, p_directionY = lastYDirection s,
      p_tickedX = tickedX s, p_tickedY = tickedY s,
      p_totalX = lastTotalX s, p_totalY = lastTotalY s\<rparr>"

definition emit :: "ScrollerEvent \<Rightarrow> Scroller \<Rightarrow> Scroller" where
  "emit ev s = s\<lparr>emitted := emitted s @ [ev]\<rparr>"

subsection \<open>Host services\<close>

text \<open>
  \<^verbatim>\<open>window.setTimeout\<close> and \<^verbatim>\<open>window.setInterval\<close> arm a timer and return its fresh
  id; \<^verbatim>\<open>clearTimeout\<close> and \<^verbatim>\<open>clearInterval\<close> disarm it.
\<close>

definition setTimer :: "Host \<Rightarrow> nat \<times> Host" where
  "setTimer h = (nextTimerId h, h\<lparr>timers := timers h @ [nextTimerId h],
                                    nextTimerId := Suc (nextTimerId h)\<rparr>)"

definition clearTimer :: "nat \<Rightarrow> Host \<Rightarrow> Host" where
  "clearTimer i h = h\<lparr>timers := removeAll i (timers h)\<rparr>"

text \<open>
  Modelled from the spec: \<^verbatim>\<open>enableScroll\<close> and \<^verbatim>\<open>disableScroll\<close> of
  \<^verbatim>\<open>./util\<close>, which is not among the sources. They switch the host-level scroll
  suppression of the element they are given. They reach into that element, so a call
  with \<^verbatim>\<open>undefined\<close> for it is a TypeError.
\<close>

definition enableScroll :: "ElementRef option \<Rightarrow> Host \<Rightarrow> error option \<times> Host" where
  "enableScroll e h =
     (case e of None \<Rightarrow> (Some TypeError, h)
      | Some r \<Rightarrow> (None, h\<lparr>scrollSuppressed := removeAll r (scrollSuppressed h)\<rparr>))"

definition disableScroll :: "ElementRef option \<Rightarrow> Host \<Rightarrow> error option \<times> Host" where
  "disableScroll e h =
     (case e of None \<Rightarrow> (Some TypeError, h)
      | Some r \<Rightarrow> if arrIncludes (scrollSuppressed h) r then (None, h)
                  else (None, h\<lparr>scrollSuppressed := scrollSuppressed h @ [r]\<rparr>))"

subsection \<open>The animation engine\<close>

text \<open>The merged options the controller passes on; only the container matters here.\<close>

record ScrollOptions =
  so_container :: "ElementRef option"

text \<open>The options of one call; \<open>None\<close> when the caller names no container.\<close>

record ScrollerScrollOptions =
  o_container :: "ElementRef option"

text \<open>
  The container an option record denotes, as \<^verbatim>\<open>scrollToSide\<close> finds it:
  \<^verbatim>\<open>(options && options.container) || defaultSettings.container\<close>, resolved by \<^verbatim>\<open>$\<close>.
\<close>

definition resolveContainer :: "ScrollOptions \<Rightarrow> Host \<Rightarrow> ElementRef option" where
  "resolveContainer options h =
     (case so_container options of Some r \<Rightarrow> Some r | None \<Rightarrow> defaultContainer h)"

text \<open>
  Modelled from the spec: the animation engine behind \<^verbatim>\<open>scrollBy\<close>
  (\<^verbatim>\<open>scroll-by-internal\<close> is not among the sources). A request whose options hold
  no container fails at the call with MissingContainer and never begins; a request on
  an element returns the handle of a new animation in flight.
  Cancelling a result, or its animation reaching the target, resolves its completion
  promise, which puts the registered reaction on the job queue; cancelling a result that
  is already settled does nothing. The frames in between are not modelled.
\<close>

definition animate :: "ScrollOptions \<Rightarrow> Host \<Rightarrow> (error + ScrollResult) \<times> Host" where
  "animate options h =
     (case so_container options of
        None \<Rightarrow> (Inl MissingContainer, h)
      | Some c \<Rightarrow> (Inr (length (results h)), h\<lparr>results := results h @ [InFlight]\<rparr>))"

definition scrollBy :: "int \<Rightarrow> int \<Rightarrow> ScrollOptions \<Rightarrow> Host \<Rightarrow> (error + ScrollResult) \<times> Host" where
  "scrollBy diffX diffY options h = animate options h"

definition settle :: "AnimStatus \<Rightarrow> ScrollResult \<Rightarrow> Host \<Rightarrow> Host" where
  "settle st r h =
     (if r < length (results h) \<and> results h ! r = InFlight
      then h\<lparr>results := (results h)[r := st], jobs := jobs h @ [ClearScrollToResult]\<rparr>
      else h)"

definition resultCancel :: "ScrollResult \<Rightarrow> Host \<Rightarrow> Host" where
  "resultCancel r h = settle Cancelled r h"

definition resultComplete :: "ScrollResult \<Rightarrow> Host \<Rightarrow> Host" where
  "resultComplete r h = settle Completed r h"

text \<open>A result is superseded once its completion promise has resolved.\<close>

definition resolved :: "ScrollResult \<Rightarrow> Host \<Rightarrow> bool" where
  "resolved r h = (r < length (results h) \<and> results h ! r \<noteq> InFlight)"

subsection \<open>State changes and measurement\<close>

definition checkDestroyed :: "Scroller \<Rightarrow> error option" where
  "checkDestroyed s = (if isDestroyed s then Some AlreadyDestroyed else None)"

definition setState :: "ScrollerState \<Rightarrow> Scroller \<Rightarrow> Scroller" where
  "setState st s =
     (if state s \<noteq> st then emit (EvChangeState st) (s\<lparr>state := st\<rparr>) else s)"

text \<open>
  \<^verbatim>\<open>_updateContainerSize(width, height)\<close>. An argument that is not given defaults to
  the client size of the document element for a body element and of \<^verbatim>\<open>this.el\<close>
  otherwise; reading it from an unbound element is a TypeError, raised before anything
  is written.
\<close>

definition updateContainerSize ::
  "int option \<Rightarrow> int option \<Rightarrow> Scroller \<Rightarrow> Host \<Rightarrow> error option \<times> Scroller" where
  "updateContainerSize width height s h =
     (let w = (case width of
                 Some v \<Rightarrow> Some v
               | None \<Rightarrow> if isBodyElement s then Some (docClientWidth h)
                         else map_option (\<lambda>r. clientWidth (dom h r)) (el s));
          ht = (case height of
                  Some v \<Rightarrow> Some v
                | None \<Rightarrow> if isBodyElement s then Some (docClientHeight h)
                          else map_option (\<lambda>r. clientHeight (dom h r)) (el s))
      in case (w, ht) of
           (Some w', Some ht') \<Rightarrow>
             (let s1 = s\<lparr>containerWidth := w', containerHeight := ht'\<rparr>
              in (None, if w' \<noteq> containerWidth s \<or> ht' \<noteq> containerHeight s
                        then emit (EvResize w' ht') s1 else s1))
         | _ \<Rightarrow> (Some TypeError, s))"

text \<open>
  \<^verbatim>\<open>_updateScrollSize\<close> and \<^verbatim>\<open>_updateScrollPositions\<close> read \<^verbatim>\<open>this.el\<close> in their
  first statement. They are given the element that \<^verbatim>\<open>this.el\<close> denotes; where it is
  unbound their callers fail with a TypeError before anything is written.
\<close>

definition updateScrollSize :: "Element \<Rightarrow> Scroller \<Rightarrow> Scroller" where
  "updateScrollSize e s = s\<lparr>scrollWidth := el_scrollWidth e, scrollHeight := el_scrollHeight e\<rparr>"

definition updateScrollPositions :: "Element \<Rightarrow> Scroller \<Rightarrow> Scroller" where
  "updateScrollPositions e s =
     (let s1 = s\<lparr>scrollTop := el_scrollTop e, scrollLeft := el_scrollLeft e\<rparr>
      in s1\<lparr>scrollBottom := scrollHeight s1 - scrollTop s1 - containerHeight s1,
            scrollRight := scrollWidth s1 - scrollLeft s1 - containerWidth s1\<rparr>)"

text \<open>\<^verbatim>\<open>_update(width, height)\<close>: container size, then content size, then positions.\<close>

definition update' ::
  "int option \<Rightarrow> int option \<Rightarrow> Scroller \<Rightarrow> Host \<Rightarrow> error option \<times> Scroller" where
  "update' width height s h =
     (case updateContainerSize width height s h of
        (Some e, s1) \<Rightarrow> (Some e, s1)
      | (None, s1) \<Rightarrow>
          (case el s1 of
             None \<Rightarrow> (Some TypeError, s1)
           | Some r \<Rightarrow>
               (None, updateScrollPositions (dom h r) (updateScrollSize (dom h r) s1))))"

text \<open>The public \<^verbatim>\<open>update()\<close> and the resize listener \<^verbatim>\<open>_onResize(width, height)\<close>.\<close>

definition update :: "Scroller \<Rightarrow> Host \<Rightarrow> error option \<times> Scroller" where
  "update s h = update' None None s h"

definition onResize :: "int option \<Rightarrow> int option \<Rightarrow> Scroller \<Rightarrow> Host \<Rightarrow> error option \<times> Scroller" where
  "onResize width height s h = update' width height s h"

subsection \<open>Background polling of the content size\<close>

definition stopScrollSizeOvserver :: "Scroller \<Rightarrow> Host \<Rightarrow> Scroller \<times> Host" where
  "stopScrollSizeOvserver s h =
     (case scrollSizeOvserverPollingId s of
        None \<Rightarrow> (s, h)
      | Some i \<Rightarrow> (s\<lparr>scrollSizeOvserverPollingId := None\<rparr>, clearTimer i h))"

definition startScrollSizeOvserver :: "Scroller \<Rightarrow> Host \<Rightarrow> Scroller \<times> Host" where
  "startScrollSizeOvserver s h =
     (case stopScrollSizeOvserver s h of
        (s1, h1) \<Rightarrow>
          (case scrollSizeOvserver s1 of
             None \<Rightarrow> (s1, h1)
           | Some cfg \<Rightarrow>
               (case setTimer h1 of
                  (i, h2) \<Rightarrow> (s1\<lparr>scrollSizeOvserverPollingId := Some i\<rparr>, h2))))"

text \<open>The callback of the polling interval.\<close>

definition scrollSizeOvserverTick :: "Scroller \<Rightarrow> Host \<Rightarrow> error option \<times> Scroller \<times> Host" where
  "scrollSizeOvserverTick s h =
     (if scrollSizeOvserver s = None \<or> isDestroyed s then
        (case stopScrollSizeOvserver s h of (s1, h1) \<Rightarrow> (None, s1, h1))
      else
        (case el s of
           None \<Rightarrow> (Some TypeError, s, h)
         | Some r \<Rightarrow> (None, updateScrollSize (dom h r) s, h)))"

subsection \<open>The scroll state machine\<close>

definition clearScrollingJudgeTimer :: "Scroller \<Rightarrow> Host \<Rightarrow> Scroller \<times> Host" where
  "clearScrollingJudgeTimer s h =
     (case scrollingJudgeTimerId s of
        None \<Rightarrow> (s, h)
      | Some i \<Rightarrow> (s\<lparr>scrollingJudgeTimerId := None\<rparr>, clearTimer i h))"

definition triggerScrollTick :: "ScrollTick \<Rightarrow> Scroller \<Rightarrow> Scroller" where
  "triggerScrollTick event s =
     (let s1 = (case event of
                  ScrollStart \<Rightarrow>
                    s\<lparr>startX := scrollLeft s, startY := scrollTop s,
                      lastTotalX := 0, lastTotalY := 0, nowScrolling := True\<rparr>
                | ScrollEnd \<Rightarrow> s\<lparr>nowScrolling := False\<rparr>
                | Scroll \<Rightarrow> s)
      in emit (EvTick event (lastPayload s1)) s1)"

text \<open>
  The blocks of \<^verbatim>\<open>_onScroll\<close>, in the order of the source. First the classification
  of the tick (\<^verbatim>\<open>// update axis\<close>, \<^verbatim>\<open>// update directions\<close>): the axis from the two
  ticked amounts, each direction from the offsets before and after the measurement.
\<close>

definition tickAxis :: "ScrollAxis \<Rightarrow> int \<Rightarrow> int \<Rightarrow> ScrollAxis" where
  "tickAxis base tX tY =
     (if tX = tY then base else if \<bar>tX\<bar> > \<bar>tY\<bar> then AxisX else AxisY)"

definition tickYDirection :: "int \<Rightarrow> int \<Rightarrow> ScrollYDirection \<Rightarrow> ScrollYDirection" where
  "tickYDirection was now d =
     (if was < now then DirBottom else if was > now then DirTop else d)"

definition tickXDirection :: "int \<Rightarrow> int \<Rightarrow> ScrollXDirection \<Rightarrow> ScrollXDirection" where
  "tickXDirection was now d =
     (if was < now then DirRight else if was > now then DirLeft else d)"

definition classifyTick :: "Scroller \<Rightarrow> Scroller \<Rightarrow> Scroller" where
  "classifyTick prev s =
     (let tX = scrollLeft s - scrollLeft prev;
          tY = scrollTop s - scrollTop prev;
          s1 = s\<lparr>tickedX := tX, tickedY := tY\<rparr>;
          s2 = s1\<lparr>lastAxis := tickAxis (baseAxis s1) tX tY\<rparr>;
          s3 = s2\<lparr>lastYDirection :=
                     tickYDirection (scrollTop prev) (scrollTop s2) (lastYDirection s2)\<rparr>;
          s4 = s3\<lparr>lastXDirection :=
                     tickXDirection (scrollLeft prev) (scrollLeft s3) (lastXDirection s3)\<rparr>
      in s4\<lparr>lastDirection := (if lastAxis s4 = AxisY then YDir (lastYDirection s4)
                                else XDir (lastXDirection s4))\<rparr>)"

text \<open>The four change notifications, each emitted when its field differs from before.\<close>

definition emitChanges :: "Scroller \<Rightarrow> Scroller \<Rightarrow> Scroller" where
  "emitChanges prev s =
     (let s1 = (if lastAxis s \<noteq> lastAxis prev then emit (EvChangeAxis (lastAxis s)) s else s);
          s2 = (if lastXDirection s \<noteq> lastXDirection prev
                then emit (EvChangeLastXDirection (lastXDirection s)) s1 else s1);
          s3 = (if lastYDirection s \<noteq> lastYDirection prev
                then emit (EvChangeLastYDirection (lastYDirection s)) s2 else s2)
      in if lastDirection s \<noteq> lastDirection prev
         then emit (EvChangeLastDirection (lastDirection s)) s3 else s3)"

text \<open>
  \<^verbatim>\<open>if (this._nowScrolling) { ... }\<close>: within an episode, a change of the axis or of
  the direction of the previous axis ends the episode; any other tick is accumulated
  and reported as \<^verbatim>\<open>scroll\<close>.
\<close>

definition episodeChanged :: "Scroller \<Rightarrow> Scroller \<Rightarrow> bool" where
  "episodeChanged prev s =
     (lastAxis s \<noteq> lastAxis prev
      \<or> (lastAxis prev = AxisY \<and> lastYDirection s \<noteq> lastYDirection prev)
      \<or> (lastAxis prev = AxisX \<and> lastXDirection s \<noteq> lastXDirection prev))"

definition judgeScrolling :: "Scroller \<Rightarrow> Scroller \<Rightarrow> Scroller" where
  "judgeScrolling prev s =
     (if nowScrolling s then
        (if episodeChanged prev s then triggerScrollTick ScrollEnd s
         else triggerScrollTick Scroll
                (s\<lparr>lastTotalX := scrollLeft s - startX s,
                   lastTotalY := scrollTop s - startY s\<rparr>))
      else s)"

text \<open>
  \<^verbatim>\<open>// judge scroll start\<close>: the test reads \<^verbatim>\<open>this._nowScrolling\<close> again, after the
  block above may have cleared it.
\<close>

definition judgeScrollStart :: "Element \<Rightarrow> Scroller \<Rightarrow> Scroller" where
  "judgeScrollStart e s =
     (if \<not> nowScrolling s then triggerScrollTick ScrollStart (updateScrollSize e s) else s)"

text \<open>
  What an enabled pass of \<^verbatim>\<open>_onScroll\<close> does to the controller before it re-arms
  the idle timer: measure the positions, classify, notify the changes, judge the end
  and the start of an episode.
\<close>

definition scrollPass :: "Element \<Rightarrow> Scroller \<Rightarrow> Scroller" where
  "scrollPass e s =
     (let s1 = updateScrollPositions e s;
          s2 = classifyTick s s1;
          s3 = emitChanges s s2;
          s4 = judgeScrolling s s3
      in judgeScrollStart e s4)"

text \<open>
  \<^verbatim>\<open>_onScroll\<close>, the reaction to one raw scroll notification. With scrolling disabled
  the cached offsets are written back to the element and nothing else happens.
\<close>

definition onScroll :: "Scroller \<Rightarrow> Host \<Rightarrow> error option \<times> Scroller \<times> Host" where
  "onScroll s h =
     (case el s of
        None \<Rightarrow> (Some TypeError, s, h)
      | Some r \<Rightarrow>
          if \<not> scrollEnabled s then
            (None, s,
             h\<lparr>dom := (dom h)(r := (dom h r)\<lparr>el_scrollLeft := scrollLeft s\<rparr>
                                            \<lparr>el_scrollTop := scrollTop s\<rparr>)\<rparr>)
          else
            (case clearScrollingJudgeTimer (scrollPass (dom h r) s) h of
               (s6, h1) \<Rightarrow>
                 (case setTimer h1 of
                    (i, h2) \<Rightarrow> (None, s6\<lparr>scrollingJudgeTimerId := Some i\<rparr>, h2))))"


subsection \<open>Animated scroll requests\<close>

definition clearScrollToResult :: "Scroller \<Rightarrow> Scroller" where
  "clearScrollToResult s =
     (case scrollToResult s of None \<Rightarrow> s | Some r \<Rightarrow> s\<lparr>scrollToResult := None\<rparr>)"

text \<open>
  \<^verbatim>\<open>_setScrollToResult\<close> stores the result and registers the reaction that clears
  the field once the promise of the result resolves. The reaction of a promise that has
  already resolved goes to the job queue at once; otherwise the engine queues it when it
  settles the result.
\<close>

definition setScrollToResult :: "ScrollResult \<Rightarrow> Scroller \<Rightarrow> Host \<Rightarrow> Scroller \<times> Host" where
  "setScrollToResult result s h =
     (s\<lparr>scrollToResult := Some result\<rparr>,
      if resolved result h then h\<lparr>jobs := jobs h @ [ClearScrollToResult]\<rparr> else h)"

definition cancel :: "Scroller \<Rightarrow> Host \<Rightarrow> Scroller \<times> Host" where
  "cancel s h =
     (case scrollToResult s of
        None \<Rightarrow> (s, h)
      | Some r \<Rightarrow> (clearScrollToResult s, resultCancel r h))"

definition createMergedScrollOptions :: "ScrollerScrollOptions \<Rightarrow> Scroller \<Rightarrow> ScrollOptions" where
  "createMergedScrollOptions source s =
     \<lparr>so_container = (case o_container source of Some c \<Rightarrow> Some c | None \<Rightarrow> el s)\<rparr>"

text \<open>
  \<^verbatim>\<open>by\<close>, \<^verbatim>\<open>to\<close> and \<^verbatim>\<open>toSide\<close>. Every request method of the class has this shape:
  the engine is called with the merged options and its result goes through
  \<^verbatim>\<open>_setScrollToResult\<close>. The engine is a parameter, so that what is proved of the
  controller holds for any engine; a failure of the engine leaves the controller as it
  was.
\<close>

type_synonym Engine = "ScrollOptions \<Rightarrow> Host \<Rightarrow> (error + ScrollResult) \<times> Host"

definition request :: "Engine \<Rightarrow> ScrollerScrollOptions \<Rightarrow> Scroller \<Rightarrow> Host
    \<Rightarrow> (error + ScrollResult) \<times> Scroller \<times> Host" where
  "request engine options s h =
     (case engine (createMergedScrollOptions options s) h of
        (Inl e, h1) \<Rightarrow> (Inl e, s, h1)
      | (Inr result, h1) \<Rightarrow>
          (case setScrollToResult result s h1 of (s2, h2) \<Rightarrow> (Inr result, s2, h2)))"

definition Scroller_by :: "(int \<Rightarrow> int \<Rightarrow> Engine) \<Rightarrow> int \<Rightarrow> int \<Rightarrow> ScrollerScrollOptions
    \<Rightarrow> Scroller \<Rightarrow> Host \<Rightarrow> (error + ScrollResult) \<times> Scroller \<times> Host" where
  "Scroller_by scrollBy' diffX diffY options s h = request (scrollBy' diffX diffY) options s h"

definition Scroller_to :: "(ScrollPosition \<Rightarrow> Engine) \<Rightarrow> ScrollPosition \<Rightarrow> ScrollerScrollOptions
    \<Rightarrow> Scroller \<Rightarrow> Host \<Rightarrow> (error + ScrollResult) \<times> Scroller \<times> Host" where
  "Scroller_to scrollTo' scrollPosition options s h = request (scrollTo' scrollPosition) options s h"

text \<open>
  \<^verbatim>\<open>toSide\<close> goes through \<^verbatim>\<open>scrollToSide\<close>, which resolves the container itself
  before it calls \<^verbatim>\<open>scrollTo\<close> with the position it has built.
\<close>

definition scrollToSideEngine :: "(ScrollPosition \<Rightarrow> Engine) \<Rightarrow> ScrollToSideTargets \<Rightarrow> Engine" where
  "scrollToSideEngine scrollTo' targets options h =
     (case scrollToSide targets (map_option (dom h) (resolveContainer options h)) of
        Inl e \<Rightarrow> (Inl e, h)
      | Inr position \<Rightarrow> scrollTo' position options h)"

definition Scroller_toSide :: "(ScrollPosition \<Rightarrow> Engine) \<Rightarrow> ScrollToSideTargets
    \<Rightarrow> ScrollerScrollOptions \<Rightarrow> Scroller \<Rightarrow> Host \<Rightarrow> (error + ScrollResult) \<times> Scroller \<times> Host" where
  "Scroller_toSide scrollTo' targets options s h =
     request (scrollToSideEngine scrollTo' targets) options s h"

subsection \<open>Scroll stoppers\<close>

text \<open>
  A failure of \<^verbatim>\<open>enableScroll\<close> or \<^verbatim>\<open>disableScroll\<close> leaves the method that called
  it at that point: what the method has done before stays done.
\<close>

definition scrollEnable :: "Scroller \<Rightarrow> Host \<Rightarrow> error option \<times> Scroller \<times> Host" where
  "scrollEnable s h = (case enableScroll (el s) h of (res, h1) \<Rightarrow> (res, s, h1))"

definition scrollDisable :: "Scroller \<Rightarrow> Host \<Rightarrow> error option \<times> Scroller \<times> Host" where
  "scrollDisable s h =
     (case cancel s h of
        (s1, h1) \<Rightarrow> (case disableScroll (el s1) h1 of (res, h2) \<Rightarrow> (res, s1, h2)))"

definition updateScrollable :: "Scroller \<Rightarrow> Host \<Rightarrow> error option \<times> Scroller \<times> Host" where
  "updateScrollable s h = (if scrollEnabled s then scrollEnable s h else scrollDisable s h)"

definition pushScrollStopper :: "ScrollStopper \<Rightarrow> Scroller \<Rightarrow> Host
    \<Rightarrow> error option \<times> Scroller \<times> Host" where
  "pushScrollStopper stopper s h =
     (if \<not> arrIncludes (scrollStoppers s) stopper then
        (let s1 = s\<lparr>scrollStoppers := scrollStoppers s @ [stopper]\<rparr>
         in if length (scrollStoppers s1) = 1 then updateScrollable s1 h else (None, s1, h))
      else (None, s, h))"

definition removeScrollStopper :: "ScrollStopper \<Rightarrow> Scroller \<Rightarrow> Host
    \<Rightarrow> error option \<times> Scroller \<times> Host" where
  "removeScrollStopper stopper s h =
     (case indexOf strictEquals (scrollStoppers s) stopper of
        None \<Rightarrow> (None, s, h)
      | Some index \<Rightarrow>
          (let s1 = s\<lparr>scrollStoppers := splice1 index (scrollStoppers s)\<rparr>
           in if length (scrollStoppers s1) = 0 then updateScrollable s1 h else (None, s1, h)))"

subsection \<open>Lifecycle\<close>

definition stopListeners :: "Scroller \<Rightarrow> Scroller" where
  "stopListeners s =
     (let s1 = (if scrollListener s then s\<lparr>scrollListener := False\<rparr> else s);
          s2 = (if resizeListener s1 \<and> isDocumentElement s1
                then s1\<lparr>resizeListener := False\<rparr> else s1)
      in if resizeObserver s2 then s2\<lparr>resizeObserver := False\<rparr> else s2)"

text \<open>
  \<^verbatim>\<open>_startListeners\<close> adds the scroll listener to \<^verbatim>\<open>this._eventTarget\<close>, which is
  bound and deleted together with \<^verbatim>\<open>this._el\<close>: without it the call is a TypeError,
  after the listener field has been assigned.
\<close>

definition startListeners :: "Scroller \<Rightarrow> Host \<Rightarrow> error option \<times> Scroller \<times> Host" where
  "startListeners s h =
     (let s1 = (stopListeners s)\<lparr>scrollListener := True\<rparr>
      in case el s1 of
           None \<Rightarrow> (Some TypeError, s1, h)
         | Some r \<Rightarrow>
             (let s2 = (if isRootElement s1 then s1\<lparr>resizeListener := True\<rparr>
                        else s1\<lparr>resizeObserver := True\<rparr>)
              in if isVisible h then
                   (case startScrollSizeOvserver (s2\<lparr>scrollSizeOvserverSuspended := False\<rparr>) h of
                      (s3, h3) \<Rightarrow> (None, s3, h3))
                 else (None, s2\<lparr>scrollSizeOvserverSuspended := True\<rparr>, h)))"

text \<open>
  \<^verbatim>\<open>ready()\<close> for a given waiter. While the controller is pending, the promise it
  returns is resolved by the function pushed on \<^verbatim>\<open>_readyResolvers\<close>; otherwise it is
  \<^verbatim>\<open>Promise.resolve()\<close>, and the reaction of the waiter goes to the job queue at once.
  A failure is the error thrown by \<^verbatim>\<open>_checkDestroyed\<close>.
\<close>

definition ready :: "Waiter \<Rightarrow> Scroller \<Rightarrow> Host \<Rightarrow> error option \<times> Scroller \<times> Host" where
  "ready w s h =
     (case checkDestroyed s of
        Some e \<Rightarrow> (Some e, s, h)
      | None \<Rightarrow>
          if \<not> isPending s then (None, s, h\<lparr>jobs := jobs h @ [Resume w]\<rparr>)
          else (None, s\<lparr>readyResolvers := readyResolvers s @ [w]\<rparr>, h))"

text \<open>
  \<^verbatim>\<open>start()\<close> is an async function. The call runs it up to \<^verbatim>\<open>await this.ready()\<close>;
  an error is the rejection of the promise it returns. The statements after the
  \<^verbatim>\<open>await\<close> run later, as a job of their own (\<open>startResume\<close>), also when the awaited
  promise is already resolved: the job is then queued at once, as it is for a native
  promise.
\<close>

definition start :: "Scroller \<Rightarrow> Host \<Rightarrow> error option \<times> Scroller \<times> Host" where
  "start s h =
     (case checkDestroyed s of
        Some e \<Rightarrow> (Some e, s, h)
      | None \<Rightarrow> if isRunning s then (None, s, h) else ready StartWaiter s h)"

definition startResume :: "Scroller \<Rightarrow> Host \<Rightarrow> error option \<times> Scroller \<times> Host" where
  "startResume s h =
     (case startListeners s h of
        (Some e, s1, h1) \<Rightarrow> (Some e, s1, h1)
      | (None, s1, h1) \<Rightarrow> (None, setState Running s1, h1))"

definition stop :: "Scroller \<Rightarrow> error option \<times> Scroller" where
  "stop s =
     (case checkDestroyed s of
        Some e \<Rightarrow> (Some e, s)
      | None \<Rightarrow> if \<not> isRunning s then (None, s)
                else (None, setState Ready (stopListeners s)))"

text \<open>
  \<^verbatim>\<open>_setup\<close> is async but awaits nothing: it runs to its end within the call. The
  promise of \<^verbatim>\<open>this.start()\<close> is dropped, so its rejection would be too; a failure of
  \<^verbatim>\<open>_updateScrollable\<close> or of \<^verbatim>\<open>_update\<close> would end \<^verbatim>\<open>_setup\<close> there.
\<close>

definition Scroller_setup :: "Scroller \<Rightarrow> Host \<Rightarrow> error option \<times> Scroller \<times> Host" where
  "Scroller_setup s h =
     (case updateScrollable s h of
        (Some e, s1, h1) \<Rightarrow> (Some e, s1, h1)
      | (None, s1, h1) \<Rightarrow>
          (case update' None None s1 h1 of
             (Some e, s2) \<Rightarrow> (Some e, s2, h1)
           | (None, s2) \<Rightarrow>
               (case start (setState Ready s2) h1 of
                  (r, s3, h3) \<Rightarrow>
                    (let s4 = emit EvReady s3;
                         h4 = h3\<lparr>jobs := jobs h3 @ map Resume (readyResolvers s4)\<rparr>
                     in (None, s4\<lparr>readyResolvers := []\<rparr>, h4)))))"

text \<open>The argument of \<^verbatim>\<open>setElement\<close>: a selector string, an element, or nothing.\<close>

datatype ElementArg = Selector string | Elem ElementRef

text \<open>
  \<^verbatim>\<open>setElement\<close>. The element is what the selector finds, the element given, or
  \<^verbatim>\<open>document.scrollingElement\<close> (\<open>resolveTarget\<close>). What \<^verbatim>\<open>stop()\<close> has done
  stays done when the element is then not found. The promise of \<^verbatim>\<open>_setup\<close> is
  dropped, so the call itself succeeds once the element is found.
\<close>

definition resolveTarget :: "ElementArg option \<Rightarrow> Host \<Rightarrow> ElementRef option" where
  "resolveTarget arg h =
     (case arg of
        Some (Selector q) \<Rightarrow> querySelector h q
      | Some (Elem r) \<Rightarrow> Some r
      | None \<Rightarrow> scrollingElement h)"

definition setElement :: "ElementArg option \<Rightarrow> Scroller \<Rightarrow> Host \<Rightarrow> error option \<times> Scroller \<times> Host" where
  "setElement arg s h =
     (case stop s of
        (Some e, s1) \<Rightarrow> (Some e, s1, h)
      | (None, s1) \<Rightarrow>
          (case resolveTarget arg h of
             None \<Rightarrow> (Some InvalidTarget, s1, h)
           | Some r \<Rightarrow>
               (let s2 = s1\<lparr>el := Some r,
                            isDocumentElement := el_isDocumentElement (dom h r),
                            isBodyElement := el_isBodyElement (dom h r)\<rparr>;
                    s3 = s2\<lparr>isRootElement := (isDocumentElement s2 \<or> isBodyElement s2)\<rparr>
                in case Scroller_setup s3 h of (r', s4, h4) \<Rightarrow> (None, s4, h4))))"


text \<open>The jobs of the queue, run one at a time, oldest first.\<close>

definition runJob :: "Scroller \<Rightarrow> Host \<Rightarrow> error option \<times> Scroller \<times> Host" where
  "runJob s h =
     (case jobs h of
        [] \<Rightarrow> (None, s, h)
      | Resume StartWaiter # js \<Rightarrow> startResume s (h\<lparr>jobs := js\<rparr>)
      | Resume (ReadyWaiter n) # js \<Rightarrow> (None, s, h\<lparr>jobs := js\<rparr>)
      | ClearScrollToResult # js \<Rightarrow> (None, clearScrollToResult s, h\<lparr>jobs := js\<rparr>))"

subsection \<open>Construction and visibility\<close>

record PartialScrollSizeOvserverSetting =
  pob_interval :: "int option"
  pob_width :: "bool option"
  pob_height :: "bool option"

record ScrollerSetting =
  set_el :: "ElementArg option"
  set_scrollingJudgeInterval :: "int option"
  set_baseAxis :: "ScrollAxis option"
  set_scrollSizeOvserver :: "PartialScrollSizeOvserverSetting option"

text \<open>
  The instance as the constructor has it just before it calls \<^verbatim>\<open>setElement\<close>: the
  field initialisers, the settings, and the visibility listener registered.
\<close>

definition fields :: "ScrollerSetting \<Rightarrow> Scroller" where
  "fields setting =
     (let base = (case set_baseAxis setting of Some a \<Rightarrow> a | None \<Rightarrow> AxisY)
      in \<lparr>scrollingJudgeInterval =
             (case set_scrollingJudgeInterval setting of Some i \<Rightarrow> i | None \<Rightarrow> 500),
          baseAxis = base,
          scrollSizeOvserver =
             map_option
               (\<lambda>p. \<lparr>ob_interval = (case pob_interval p of Some i \<Rightarrow> i | None \<Rightarrow> 500),
                      ob_width = (case pob_width p of Some b \<Rightarrow> b | None \<Rightarrow> True),
                      ob_height = (case pob_height p of Some b \<Rightarrow> b | None \<Rightarrow> True)\<rparr>)
               (set_scrollSizeOvserver setting),
          el = None, isDocumentElement = False, isBodyElement = False, isRootElement = False,
          state = Pending,
          containerWidth = 0, containerHeight = 0, scrollWidth = 0, scrollHeight = 0,
          scrollTop = 0, scrollRight = 0, scrollBottom = 0, scrollLeft = 0,
          lastAxis = base,
          lastDirection = (if base = AxisY then YDir DirTop else XDir DirLeft),
          lastYDirection = DirTop, lastXDirection = DirLeft,
          nowScrolling = False, readyResolvers = [], scrollingJudgeTimerId = None,
          startX = 0, startY = 0, tickedX = 0, tickedY = 0, lastTotalX = 0, lastTotalY = 0,
          scrollListener = False, resizeListener = False, resizeObserver = False,
          scrollToResult = None, scrollStoppers = [],
          scrollSizeOvserverPollingId = None, scrollSizeOvserverSuspended = False,
          visibilityListener = True, emitted = []\<rparr>)"

definition newScroller :: "ScrollerSetting \<Rightarrow> Host \<Rightarrow> error option \<times> Scroller \<times> Host" where
  "newScroller setting h = setElement (set_el setting) (fields setting) h"

text \<open>The listener registered with the visibility service.\<close>

definition visibilityChanged :: "Scroller \<Rightarrow> Host \<Rightarrow> error option \<times> Scroller \<times> Host" where
  "visibilityChanged s h =
     (if isVisible h then
        (case update s h of
           (Some e, s1) \<Rightarrow> (Some e, s1, h)
         | (None, s1) \<Rightarrow>
             if scrollSizeOvserverSuspended s1 then
               (case startScrollSizeOvserver (s1\<lparr>scrollSizeOvserverSuspended := False\<rparr>) h of
                  (s2, h2) \<Rightarrow> (None, s2, h2))
             else (None, s1, h))
      else
        (case stopScrollSizeOvserver
                (s\<lparr>scrollSizeOvserverSuspended := (scrollSizeOvserverPollingId s \<noteq> None)\<rparr>) h of
           (s1, h1) \<Rightarrow> (None, s1, h1)))"

subsection \<open>Observations and scenarios\<close>

text \<open>The events emitted between two states of the controller, and the scroll ticks among them.\<close>

definition emittedSince :: "Scroller \<Rightarrow> Scroller \<Rightarrow> ScrollerEvent list" where
  "emittedSince s s' = drop (length (emitted s)) (emitted s')"

fun isTick :: "ScrollerEvent \<Rightarrow> bool" where
  "isTick (EvTick t p) = True"
| "isTick ev = False"

definition ticksSince :: "Scroller \<Rightarrow> Scroller \<Rightarrow> ScrollerEvent list" where
  "ticksSince s s' = filter isTick (emittedSince s s')"

text \<open>
  The measurement invariant of the specification:
  \<open>scrollBottom + scrollTop + containerHeight = scrollHeight\<close>, and the same for the
  horizontal axis.
\<close>

definition measured :: "Scroller \<Rightarrow> bool" where
  "measured s =
     (scrollBottom s + scrollTop s + containerHeight s = scrollHeight s
      \<and> scrollRight s + scrollLeft s + containerWidth s = scrollWidth s)"

text \<open>
  A host for the scenarios: every element is 300 by 200 with content of 1200 by 1000 and
  stands at the offsets \<open>(10, 40)\<close>; the selector \<open>#box\<close> finds element 1, and
  the document scrolls in element 0.
\<close>

definition demoElement :: Element where
  "demoElement =
     \<lparr>clientWidth = 300, clientHeight = 200, el_scrollWidth = 1200, el_scrollHeight = 1000,
      el_scrollTop = 40, el_scrollLeft = 10,
      el_isDocumentElement = False, el_isBodyElement = False\<rparr>"

definition demoHost :: Host where
  "demoHost =
     \<lparr>dom = (\<lambda>r. demoElement), docClientWidth = 1024, docClientHeight = 768,
      querySelector = (\<lambda>q. if q = ''#box'' then Some 1 else None),
      scrollingElement = Some 0, defaultContainer = Some 0, isVisible = True,
      timers = [], nextTimerId = 0, jobs = [], results = [], scrollSuppressed = []\<rparr>"

definition demoSetting :: "ScrollAxis \<Rightarrow> ScrollerSetting" where
  "demoSetting base =
     \<lparr>set_el = Some (Selector ''#box''), set_scrollingJudgeInterval = None,
      set_baseAxis = Some base, set_scrollSizeOvserver = None\<rparr>"

text \<open>A controller constructed on \<open>#box\<close> whose \<^verbatim>\<open>start\<close> has resumed: it is running.\<close>

definition demoRunning :: "ScrollAxis \<Rightarrow> Scroller \<times> Host" where
  "demoRunning base =
     (case newScroller (demoSetting base) demoHost of
        (res, s, h) \<Rightarrow> (case runJob s h of (res', s', h') \<Rightarrow> (s', h')))"

text \<open>
  The host moves an element to the offsets \<open>(x, y)\<close>, or its content takes a new size;
  \<open>notify\<close> moves the bound element and delivers the scroll notification.
\<close>

definition hostScroll :: "ElementRef \<Rightarrow> int \<Rightarrow> int \<Rightarrow> Host \<Rightarrow> Host" where
  "hostScroll r x y h =
     h\<lparr>dom := (dom h)(r := (dom h r)\<lparr>el_scrollLeft := x, el_scrollTop := y\<rparr>)\<rparr>"

definition hostContentSize :: "ElementRef \<Rightarrow> int \<Rightarrow> int \<Rightarrow> Host \<Rightarrow> Host" where
  "hostContentSize r w ht h =
     h\<lparr>dom := (dom h)(r := (dom h r)\<lparr>el_scrollWidth := w, el_scrollHeight := ht\<rparr>)\<rparr>"

definition notify :: "int \<Rightarrow> int \<Rightarrow> Scroller \<times> Host \<Rightarrow> Scroller \<times> Host" where
  "notify x y sh =
     (case sh of
        (s, h) \<Rightarrow>
          (case el s of
             None \<Rightarrow> sh
           | Some r \<Rightarrow> (case onScroll s (hostScroll r x y h) of (res, s', h') \<Rightarrow> (s', h'))))"

text \<open>A running controller in the middle of an episode that scrolls down.\<close>

definition downEpisode :: "Scroller \<times> Host" where
  "downEpisode = notify 10 100 (demoRunning AxisY)"

text \<open>The running controller after a scroll stopper has been pushed.\<close>

definition stoppedScroller :: "Scroller \<times> Host" where
  "stoppedScroller =
     (case demoRunning AxisY of
        (s, h) \<Rightarrow> (case pushScrollStopper (StopperNumber 7) s h of (res, s', h') \<Rightarrow> (s', h')))"

text \<open>The running controller at rest, after the content of its element has grown to 1500.\<close>

definition grownContent :: "Scroller \<times> Host" where
  "grownContent = (case demoRunning AxisY of (s, h) \<Rightarrow> (s, hostContentSize 1 1200 1500 h))"

text \<open>
  A sequence of \<^verbatim>\<open>pushScrollStopper\<close> and \<^verbatim>\<open>removeScrollStopper\<close> calls, run in
  order, a caller going on to the next call also when one has failed; and, in the words
  of the specification, the set of tokens such a sequence leaves: pushing adds the token
  to the set, removing takes it out.
\<close>

datatype StopperCall = Push ScrollStopper | Remove ScrollStopper

fun stopperCalls :: "StopperCall list \<Rightarrow> Scroller \<Rightarrow> Host \<Rightarrow> Scroller \<times> Host" where
  "stopperCalls [] s h = (s, h)"
| "stopperCalls (Push t # cs) s h =
     (case pushScrollStopper t s h of (res, s', h') \<Rightarrow> stopperCalls cs s' h')"
| "stopperCalls (Remove t # cs) s h =
     (case removeScrollStopper t s h of (res, s', h') \<Rightarrow> stopperCalls cs s' h')"

fun stopperSet :: "StopperCall list \<Rightarrow> ScrollStopper set \<Rightarrow> ScrollStopper set" where
  "stopperSet [] S = S"
| "stopperSet (Push t # cs) S = stopperSet cs (insert t S)"
| "stopperSet (Remove t # cs) S = stopperSet cs (S - {t})"

text \<open>
  The running controller after two requests \<^verbatim>\<open>by(0, 100)\<close> and \<^verbatim>\<open>by(0, 50)\<close> issued
  one after the other, with the engine of the specification.
\<close>

definition noOptions :: ScrollerScrollOptions where
  "noOptions = \<lparr>o_container = None\<rparr>"

definition twoRequests :: "(error + ScrollResult) \<times> Scroller \<times> Host" where
  "twoRequests =
     (case demoRunning AxisY of
        (s, h) \<Rightarrow>
          (case Scroller_by scrollBy 0 100 noOptions s h of
             (res, s1, h1) \<Rightarrow> Scroller_by scrollBy 0 50 noOptions s1 h1))"





section \<open>Properties\<close>

lemma arrIncludes_iff: "arrIncludes xs y \<longleftrightarrow> y \<in> set xs"
  by (induction xs) auto

subsection \<open>Field lemmas and the structure of a scroll pass\<close>

lemma emit_simps [simp]:
  "lastAxis (emit ev s) = lastAxis s"
  "lastYDirection (emit ev s) = lastYDirection s"
  "lastXDirection (emit ev s) = lastXDirection s"
  "lastDirection (emit ev s) = lastDirection s"
  "scrollTop (emit ev s) = scrollTop s"
  "scrollLeft (emit ev s) = scrollLeft s"
  "tickedX (emit ev s) = tickedX s"
  "tickedY (emit ev s) = tickedY s"
  "nowScrolling (emit ev s) = nowScrolling s"
  "emitted (emit ev s) = emitted s @ [ev]"
  by (simp_all add: emit_def)

lemma emitChanges_simps [simp]:
  "lastAxis (emitChanges b s) = lastAxis s"
  "lastYDirection (emitChanges b s) = lastYDirection s"
  "lastXDirection (emitChanges b s) = lastXDirection s"
  "lastDirection (emitChanges b s) = lastDirection s"
  "scrollTop (emitChanges b s) = scrollTop s"
  "scrollLeft (emitChanges b s) = scrollLeft s"
  "tickedX (emitChanges b s) = tickedX s"
  "tickedY (emitChanges b s) = tickedY s"
  "nowScrolling (emitChanges b s) = nowScrolling s"
  by (simp_all add: emitChanges_def Let_def)

lemma triggerScrollTick_simps [simp]:
  "lastAxis (triggerScrollTick t s) = lastAxis s"
  "lastYDirection (triggerScrollTick t s) = lastYDirection s"
  "lastXDirection (triggerScrollTick t s) = lastXDirection s"
  "lastDirection (triggerScrollTick t s) = lastDirection s"
  "scrollTop (triggerScrollTick t s) = scrollTop s"
  "scrollLeft (triggerScrollTick t s) = scrollLeft s"
  "tickedX (triggerScrollTick t s) = tickedX s"
  "tickedY (triggerScrollTick t s) = tickedY s"
  by (cases t; simp add: triggerScrollTick_def Let_def)+

lemma judgeScrolling_simps [simp]:
  "lastAxis (judgeScrolling b s) = lastAxis s"
  "lastYDirection (judgeScrolling b s) = lastYDirection s"
  "lastXDirection (judgeScrolling b s) = lastXDirection s"
  "lastDirection (judgeScrolling b s) = lastDirection s"
  "scrollTop (judgeScrolling b s) = scrollTop s"
  "scrollLeft (judgeScrolling b s) = scrollLeft s"
  "tickedX (judgeScrolling b s) = tickedX s"
  "tickedY (judgeScrolling b s) = tickedY s"
  by (simp_all add: judgeScrolling_def)

lemma judgeScrollStart_simps [simp]:
  "lastAxis (judgeScrollStart e s) = lastAxis s"
  "lastYDirection (judgeScrollStart e s) = lastYDirection s"
  "lastXDirection (judgeScrollStart e s) = lastXDirection s"
  "lastDirection (judgeScrollStart e s) = lastDirection s"
  "scrollTop (judgeScrollStart e s) = scrollTop s"
  "scrollLeft (judgeScrollStart e s) = scrollLeft s"
  "tickedX (judgeScrollStart e s) = tickedX s"
  "tickedY (judgeScrollStart e s) = tickedY s"
  by (simp_all add: judgeScrollStart_def updateScrollSize_def)

lemma classifyTick_simps [simp]:
  "scrollTop (classifyTick b s) = scrollTop s"
  "scrollLeft (classifyTick b s) = scrollLeft s"
  "nowScrolling (classifyTick b s) = nowScrolling s"
  "emitted (classifyTick b s) = emitted s"
  "tickedX (classifyTick b s) = scrollLeft s - scrollLeft b"
  "tickedY (classifyTick b s) = scrollTop s - scrollTop b"
  "lastAxis (classifyTick b s) = tickAxis (baseAxis s) (scrollLeft s - scrollLeft b) (scrollTop s - scrollTop b)"
  "lastYDirection (classifyTick b s) = tickYDirection (scrollTop b) (scrollTop s) (lastYDirection s)"
  "lastXDirection (classifyTick b s) = tickXDirection (scrollLeft b) (scrollLeft s) (lastXDirection s)"
  by (simp_all add: classifyTick_def Let_def)

lemma updateScrollPositions_simps [simp]:
  "scrollTop (updateScrollPositions e s) = el_scrollTop e"
  "scrollLeft (updateScrollPositions e s) = el_scrollLeft e"
  "nowScrolling (updateScrollPositions e s) = nowScrolling s"
  "emitted (updateScrollPositions e s) = emitted s"
  "baseAxis (updateScrollPositions e s) = baseAxis s"
  "lastAxis (updateScrollPositions e s) = lastAxis s"
  "lastYDirection (updateScrollPositions e s) = lastYDirection s"
  "lastXDirection (updateScrollPositions e s) = lastXDirection s"
  "lastDirection (updateScrollPositions e s) = lastDirection s"
  by (simp_all add: updateScrollPositions_def Let_def)



lemma scrollPass_simps [simp]:
  "scrollTop (scrollPass e s) = el_scrollTop e"
  "scrollLeft (scrollPass e s) = el_scrollLeft e"
  "tickedX (scrollPass e s) = el_scrollLeft e - scrollLeft s"
  "tickedY (scrollPass e s) = el_scrollTop e - scrollTop s"
  "lastAxis (scrollPass e s) = tickAxis (baseAxis s) (el_scrollLeft e - scrollLeft s) (el_scrollTop e - scrollTop s)"
  "lastYDirection (scrollPass e s) = tickYDirection (scrollTop s) (el_scrollTop e) (lastYDirection s)"
  "lastXDirection (scrollPass e s) = tickXDirection (scrollLeft s) (el_scrollLeft e) (lastXDirection s)"
  by (simp_all add: scrollPass_def Let_def)

lemma clearScrollingJudgeTimer_eq:
  "clearScrollingJudgeTimer s h =
     (s\<lparr>scrollingJudgeTimerId := None\<rparr>,
      case scrollingJudgeTimerId s of None \<Rightarrow> h | Some j \<Rightarrow> clearTimer j h)"
  by (simp add: clearScrollingJudgeTimer_def split: option.splits)

lemma nextTimerId_cleared [simp]:
  "nextTimerId (case t of None \<Rightarrow> h | Some j \<Rightarrow> clearTimer j h) = nextTimerId h"
  by (simp add: clearTimer_def split: option.splits)

lemma onScroll_enabled:
  assumes "el s = Some r" "scrollEnabled s"
  shows "onScroll s h =
     (None, (scrollPass (dom h r) s)\<lparr>scrollingJudgeTimerId := Some (nextTimerId h)\<rparr>,
      snd (setTimer (case scrollingJudgeTimerId (scrollPass (dom h r) s) of
                       None \<Rightarrow> h | Some j \<Rightarrow> clearTimer j h)))"
  using assms
  by (simp add: onScroll_def clearScrollingJudgeTimer_eq setTimer_def)

lemma onScroll_unbound: "el s = None \<Longrightarrow> onScroll s h = (Some TypeError, s, h)"
  by (simp add: onScroll_def)

lemma onScroll_disabled:
  "el s = Some r \<Longrightarrow> \<not> scrollEnabled s \<Longrightarrow>
   onScroll s h = (None, s, h\<lparr>dom := (dom h)(r := (dom h r)\<lparr>el_scrollLeft := scrollLeft s, el_scrollTop := scrollTop s\<rparr>)\<rparr>)"
  by (simp add: onScroll_def)

lemma onScroll_cases:
  assumes "onScroll s h = (res, s', h')"
  obtains (unbound) "el s = None" "s' = s"
  | (disabled) r where "el s = Some r" "\<not> scrollEnabled s" "s' = s"
  | (enabled) r where "el s = Some r" "scrollEnabled s"
      "s' = (scrollPass (dom h r) s)\<lparr>scrollingJudgeTimerId := Some (nextTimerId h)\<rparr>"
proof (cases "el s")
  case None
  then have "s' = s" using assms by (simp add: onScroll_unbound)
  with None show ?thesis by (rule unbound)
next
  case (Some r)
  show ?thesis
  proof (cases "scrollEnabled s")
    case True
    have "s' = (scrollPass (dom h r) s)\<lparr>scrollingJudgeTimerId := Some (nextTimerId h)\<rparr>"
      using assms by (simp add: onScroll_enabled [OF Some True])
    with Some True show ?thesis by (rule enabled)
  next
    case False
    have "s' = s" using assms by (simp add: onScroll_disabled [OF Some False])
    with Some False show ?thesis by (rule disabled)
  qed
qed

lemma tickAxis_cases:
  "(\<bar>tX\<bar> > \<bar>tY\<bar> \<longrightarrow> tickAxis base tX tY = AxisX)
   \<and> (\<bar>tY\<bar> > \<bar>tX\<bar> \<longrightarrow> tickAxis base tX tY = AxisY)
   \<and> (tX = tY \<longrightarrow> tickAxis base tX tY = base)
   \<and> (\<bar>tX\<bar> = \<bar>tY\<bar> \<and> tX \<noteq> tY \<longrightarrow> tickAxis base tX tY = AxisY)"
  by (auto simp: tickAxis_def)

lemma onScroll_axis:
  assumes "onScroll s h = (res, s', h')" "el s = Some r" "scrollEnabled s"
  shows "tickedX s' = el_scrollLeft (dom h r) - scrollLeft s"
    and "tickedY s' = el_scrollTop (dom h r) - scrollTop s"
    and "lastAxis s' = tickAxis (baseAxis s) (tickedX s') (tickedY s')"
  using assms by (cases rule: onScroll_cases; simp)+


lemma emitChanges_eq:
  "emitChanges b s = s\<lparr>emitted := emitted s
      @ ((if lastAxis s \<noteq> lastAxis b then [EvChangeAxis (lastAxis s)] else [])
      @ (if lastXDirection s \<noteq> lastXDirection b then [EvChangeLastXDirection (lastXDirection s)] else [])
      @ (if lastYDirection s \<noteq> lastYDirection b then [EvChangeLastYDirection (lastYDirection s)] else [])
      @ (if lastDirection s \<noteq> lastDirection b then [EvChangeLastDirection (lastDirection s)] else []))\<rparr>"
  by (simp add: emitChanges_def emit_def Let_def)

lemma emitChanges_emitted:
  "\<exists>ch. emitChanges b s = s\<lparr>emitted := emitted s @ ch\<rparr> \<and> filter isTick ch = []"
  by (rule exI [of _ "(if lastAxis s \<noteq> lastAxis b then [EvChangeAxis (lastAxis s)] else [])
      @ (if lastXDirection s \<noteq> lastXDirection b then [EvChangeLastXDirection (lastXDirection s)] else [])
      @ (if lastYDirection s \<noteq> lastYDirection b then [EvChangeLastYDirection (lastYDirection s)] else [])
      @ (if lastDirection s \<noteq> lastDirection b then [EvChangeLastDirection (lastDirection s)] else [])"])
     (simp add: emitChanges_eq)

lemma scrollPass_reversal:
  assumes "nowScrolling s"
    and "episodeChanged s (scrollPass e s)"
  shows "\<exists>ch. filter isTick ch = []
     \<and> emitted (scrollPass e s) = emitted s @ ch @
         [EvTick ScrollEnd ((lastPayload (scrollPass e s))\<lparr>p_totalX := lastTotalX s, p_totalY := lastTotalY s\<rparr>),
          EvTick ScrollStart (lastPayload (scrollPass e s))]
     \<and> nowScrolling (scrollPass e s)"
proof -
  define c where "c = classifyTick s (updateScrollPositions e s)"
  obtain ch where ch: "emitChanges s c = c\<lparr>emitted := emitted c @ ch\<rparr>" "filter isTick ch = []"
    using emitChanges_emitted by blast
  define x where "x = c\<lparr>emitted := emitted c @ ch\<rparr>"
  have pass: "scrollPass e s = judgeScrollStart e (judgeScrolling s x)"
    by (simp add: scrollPass_def Let_def c_def x_def ch(1) [unfolded c_def])
  have changed: "episodeChanged s x"
    using assms(2) by (simp add: episodeChanged_def x_def c_def)
  have ns: "nowScrolling x"
    using assms(1) by (simp add: x_def c_def)
  have j: "judgeScrolling s x = triggerScrollTick ScrollEnd x"
    using changed ns by (simp add: judgeScrolling_def)
  have ec: "emitted c = emitted s" by (simp add: c_def)
  have tot: "lastTotalX x = lastTotalX s" "lastTotalY x = lastTotalY s"
    by (simp_all add: x_def c_def classifyTick_def updateScrollPositions_def Let_def)
  show ?thesis
    apply (rule exI [of _ ch])
    apply (simp add: pass j ch(2))
    apply (simp add: judgeScrollStart_def triggerScrollTick_def updateScrollSize_def emit_def
        lastPayload_def Let_def tot)
    apply (simp add: x_def ec)
    done
qed

text \<open>The three kinds of enabled pass, in closed form.\<close>

lemma classifyTick_eq:
  "classifyTick b s =
     s\<lparr>tickedX := scrollLeft s - scrollLeft b, tickedY := scrollTop s - scrollTop b,
       lastAxis := tickAxis (baseAxis s) (scrollLeft s - scrollLeft b) (scrollTop s - scrollTop b),
       lastYDirection := tickYDirection (scrollTop b) (scrollTop s) (lastYDirection s),
       lastXDirection := tickXDirection (scrollLeft b) (scrollLeft s) (lastXDirection s),
       lastDirection :=
         (if tickAxis (baseAxis s) (scrollLeft s - scrollLeft b) (scrollTop s - scrollTop b) = AxisY
          then YDir (tickYDirection (scrollTop b) (scrollTop s) (lastYDirection s))
          else XDir (tickXDirection (scrollLeft b) (scrollLeft s) (lastXDirection s)))\<rparr>"
  by (simp add: classifyTick_def Let_def)

lemma scrollPass_start_eq:
  assumes "\<not> nowScrolling s"
  shows "scrollPass e s =
     s\<lparr>scrollTop := el_scrollTop e, scrollLeft := el_scrollLeft e,
       scrollBottom := scrollHeight s - el_scrollTop e - containerHeight s,
       scrollRight := scrollWidth s - el_scrollLeft e - containerWidth s,
       tickedX := el_scrollLeft e - scrollLeft s, tickedY := el_scrollTop e - scrollTop s,
       lastAxis := lastAxis (scrollPass e s),
       lastYDirection := lastYDirection (scrollPass e s),
       lastXDirection := lastXDirection (scrollPass e s),
       lastDirection := lastDirection (scrollPass e s),
       scrollWidth := el_scrollWidth e, scrollHeight := el_scrollHeight e,
       startX := el_scrollLeft e, startY := el_scrollTop e,
       lastTotalX := 0, lastTotalY := 0, nowScrolling := True,
       emitted := emitted (emitChanges s (classifyTick s (updateScrollPositions e s)))
         @ [EvTick ScrollStart
             \<lparr>p_top = el_scrollTop e, p_left = el_scrollLeft e,
              p_bottom = scrollHeight s - el_scrollTop e - containerHeight s,
              p_right = scrollWidth s - el_scrollLeft e - containerWidth s,
              p_axis = lastAxis (scrollPass e s),
              p_direction = lastDirection (scrollPass e s),
              p_directionX = lastXDirection (scrollPass e s),
              p_directionY = lastYDirection (scrollPass e s),
              p_tickedX = el_scrollLeft e - scrollLeft s,
              p_tickedY = el_scrollTop e - scrollTop s,
              p_totalX = 0, p_totalY = 0\<rparr>]\<rparr>"
proof -
  define c where "c = classifyTick s (updateScrollPositions e s)"
  have p: "scrollPass e s = triggerScrollTick ScrollStart (updateScrollSize e (emitChanges s c))"
    using assms by (simp add: scrollPass_def Let_def c_def judgeScrolling_def judgeScrollStart_def)
  have ld: "lastAxis (scrollPass e s) = lastAxis c" "lastDirection (scrollPass e s) = lastDirection c"
     "lastYDirection (scrollPass e s) = lastYDirection c" "lastXDirection (scrollPass e s) = lastXDirection c"
    by (simp_all add: p updateScrollSize_def)
  show ?thesis
    unfolding ld
    unfolding p emitChanges_eq
    by (simp add: triggerScrollTick_def updateScrollSize_def emit_def lastPayload_def c_def classifyTick_eq updateScrollPositions_def Let_def)
qed


lemma scrollPass_lastDirection [simp]:
  "lastDirection (scrollPass e s) =
     (if tickAxis (baseAxis s) (el_scrollLeft e - scrollLeft s) (el_scrollTop e - scrollTop s) = AxisY
      then YDir (tickYDirection (scrollTop s) (el_scrollTop e) (lastYDirection s))
      else XDir (tickXDirection (scrollLeft s) (el_scrollLeft e) (lastXDirection s)))"
  by (simp add: scrollPass_def Let_def classifyTick_eq updateScrollPositions_def)

lemma classifyTick_lastDirection [simp]:
  "lastDirection (classifyTick b s) =
     (if tickAxis (baseAxis s) (scrollLeft s - scrollLeft b) (scrollTop s - scrollTop b) = AxisY
      then YDir (tickYDirection (scrollTop b) (scrollTop s) (lastYDirection s))
      else XDir (tickXDirection (scrollLeft b) (scrollLeft s) (lastXDirection s)))"
  by (simp add: classifyTick_eq)

lemma emitChanges_emitted_eq:
  "emitted (emitChanges b s) = emitted s
      @ ((if lastAxis s \<noteq> lastAxis b then [EvChangeAxis (lastAxis s)] else [])
      @ (if lastXDirection s \<noteq> lastXDirection b then [EvChangeLastXDirection (lastXDirection s)] else [])
      @ (if lastYDirection s \<noteq> lastYDirection b then [EvChangeLastYDirection (lastYDirection s)] else [])
      @ (if lastDirection s \<noteq> lastDirection b then [EvChangeLastDirection (lastDirection s)] else []))"
  by (simp add: emitChanges_eq)

lemma triggerScrollTick_nowScrolling [simp]:
  "nowScrolling (triggerScrollTick ScrollEnd s) = False"
  "nowScrolling (triggerScrollTick ScrollStart s) = True"
  "nowScrolling (triggerScrollTick Scroll s) = nowScrolling s"
  by (simp_all add: triggerScrollTick_def emit_def Let_def)

lemma scrollPass_reversal_eq:
  assumes "nowScrolling s" and "episodeChanged s (scrollPass e s)"
  shows "scrollPass e s =
     s\<lparr>scrollTop := el_scrollTop e, scrollLeft := el_scrollLeft e,
       scrollBottom := scrollHeight s - el_scrollTop e - containerHeight s,
       scrollRight := scrollWidth s - el_scrollLeft e - containerWidth s,
       tickedX := el_scrollLeft e - scrollLeft s, tickedY := el_scrollTop e - scrollTop s,
       lastAxis := lastAxis (scrollPass e s),
       lastYDirection := lastYDirection (scrollPass e s),
       lastXDirection := lastXDirection (scrollPass e s),
       lastDirection := lastDirection (scrollPass e s),
       scrollWidth := el_scrollWidth e, scrollHeight := el_scrollHeight e,
       startX := el_scrollLeft e, startY := el_scrollTop e,
       lastTotalX := 0, lastTotalY := 0, nowScrolling := True,
       emitted := emitted (emitChanges s (classifyTick s (updateScrollPositions e s)))
         @ [EvTick ScrollEnd
             \<lparr>p_top = el_scrollTop e, p_left = el_scrollLeft e,
              p_bottom = scrollHeight s - el_scrollTop e - containerHeight s,
              p_right = scrollWidth s - el_scrollLeft e - containerWidth s,
              p_axis = lastAxis (scrollPass e s),
              p_direction = lastDirection (scrollPass e s),
              p_directionX = lastXDirection (scrollPass e s),
              p_directionY = lastYDirection (scrollPass e s),
              p_tickedX = el_scrollLeft e - scrollLeft s,
              p_tickedY = el_scrollTop e - scrollTop s,
              p_totalX = lastTotalX s, p_totalY = lastTotalY s\<rparr>,
            EvTick ScrollStart
             \<lparr>p_top = el_scrollTop e, p_left = el_scrollLeft e,
              p_bottom = scrollHeight s - el_scrollTop e - containerHeight s,
              p_right = scrollWidth s - el_scrollLeft e - containerWidth s,
              p_axis = lastAxis (scrollPass e s),
              p_direction = lastDirection (scrollPass e s),
              p_directionX = lastXDirection (scrollPass e s),
              p_directionY = lastYDirection (scrollPass e s),
              p_tickedX = el_scrollLeft e - scrollLeft s,
              p_tickedY = el_scrollTop e - scrollTop s,
              p_totalX = 0, p_totalY = 0\<rparr>]\<rparr>"
proof -
  define c where "c = classifyTick s (updateScrollPositions e s)"
  have ch: "episodeChanged s (emitChanges s c)"
    using assms(2) by (simp add: episodeChanged_def c_def)
  have ns: "nowScrolling (emitChanges s c)"
    using assms(1) by (simp add: c_def)
  have p: "scrollPass e s =
     triggerScrollTick ScrollStart
       (updateScrollSize e (triggerScrollTick ScrollEnd (emitChanges s c)))"
    using ns ch assms(1)
    by (simp add: scrollPass_def Let_def c_def [symmetric] judgeScrolling_def judgeScrollStart_def)
  have ld: "lastAxis (scrollPass e s) = lastAxis c" "lastDirection (scrollPass e s) = lastDirection c"
     "lastYDirection (scrollPass e s) = lastYDirection c" "lastXDirection (scrollPass e s) = lastXDirection c"
    by (simp_all add: p updateScrollSize_def)
  show ?thesis
    unfolding ld
    unfolding p emitChanges_eq
    by (simp add: triggerScrollTick_def updateScrollSize_def emit_def lastPayload_def c_def classifyTick_eq updateScrollPositions_def Let_def)
qed

lemma scrollPass_tick_eq:
  assumes "nowScrolling s" and "\<not> episodeChanged s (scrollPass e s)"
  shows "scrollPass e s =
     s\<lparr>scrollTop := el_scrollTop e, scrollLeft := el_scrollLeft e,
       scrollBottom := scrollHeight s - el_scrollTop e - containerHeight s,
       scrollRight := scrollWidth s - el_scrollLeft e - containerWidth s,
       tickedX := el_scrollLeft e - scrollLeft s, tickedY := el_scrollTop e - scrollTop s,
       lastAxis := lastAxis (scrollPass e s),
       lastYDirection := lastYDirection (scrollPass e s),
       lastXDirection := lastXDirection (scrollPass e s),
       lastDirection := lastDirection (scrollPass e s),
       lastTotalX := el_scrollLeft e - startX s, lastTotalY := el_scrollTop e - startY s,
       emitted := emitted (emitChanges s (classifyTick s (updateScrollPositions e s)))
         @ [EvTick Scroll
             \<lparr>p_top = el_scrollTop e, p_left = el_scrollLeft e,
              p_bottom = scrollHeight s - el_scrollTop e - containerHeight s,
              p_right = scrollWidth s - el_scrollLeft e - containerWidth s,
              p_axis = lastAxis (scrollPass e s),
              p_direction = lastDirection (scrollPass e s),
              p_directionX = lastXDirection (scrollPass e s),
              p_directionY = lastYDirection (scrollPass e s),
              p_tickedX = el_scrollLeft e - scrollLeft s,
              p_tickedY = el_scrollTop e - scrollTop s,
              p_totalX = el_scrollLeft e - startX s, p_totalY = el_scrollTop e - startY s\<rparr>]\<rparr>"
proof -
  define c where "c = classifyTick s (updateScrollPositions e s)"
  have ch: "\<not> episodeChanged s (emitChanges s c)"
    using assms(2) by (simp add: episodeChanged_def c_def)
  have ns: "nowScrolling (emitChanges s c)"
    using assms(1) by (simp add: c_def)
  have p: "scrollPass e s =
     triggerScrollTick Scroll
       ((emitChanges s c)\<lparr>lastTotalX := scrollLeft (emitChanges s c) - startX (emitChanges s c),
                          lastTotalY := scrollTop (emitChanges s c) - startY (emitChanges s c)\<rparr>)"
    using ns ch assms(1)
    by (simp add: scrollPass_def Let_def c_def [symmetric] judgeScrolling_def judgeScrollStart_def)
  have ld: "lastAxis (scrollPass e s) = lastAxis c" "lastDirection (scrollPass e s) = lastDirection c"
     "lastYDirection (scrollPass e s) = lastYDirection c" "lastXDirection (scrollPass e s) = lastXDirection c"
    by (simp_all add: p)
  show ?thesis
    unfolding ld
    unfolding p emitChanges_eq
    by (simp add: triggerScrollTick_def emit_def lastPayload_def c_def classifyTick_eq updateScrollPositions_def Let_def)
qed




lemma scrollPass_start:
  assumes "\<not> nowScrolling s"
  shows "scrollPass e s =
     (let a = tickAxis (baseAxis s) (el_scrollLeft e - scrollLeft s) (el_scrollTop e - scrollTop s);
          dy = tickYDirection (scrollTop s) (el_scrollTop e) (lastYDirection s);
          dx = tickXDirection (scrollLeft s) (el_scrollLeft e) (lastXDirection s);
          d = (if a = AxisY then YDir dy else XDir dx);
          p = \<lparr>p_top = el_scrollTop e, p_left = el_scrollLeft e,
               p_bottom = scrollHeight s - el_scrollTop e - containerHeight s,
               p_right = scrollWidth s - el_scrollLeft e - containerWidth s,
               p_axis = a, p_direction = d, p_directionX = dx, p_directionY = dy,
               p_tickedX = el_scrollLeft e - scrollLeft s,
               p_tickedY = el_scrollTop e - scrollTop s,
               p_totalX = lastTotalX s, p_totalY = lastTotalY s\<rparr>
      in s\<lparr>scrollTop := el_scrollTop e, scrollLeft := el_scrollLeft e,
           scrollBottom := scrollHeight s - el_scrollTop e - containerHeight s,
           scrollRight := scrollWidth s - el_scrollLeft e - containerWidth s,
           tickedX := el_scrollLeft e - scrollLeft s, tickedY := el_scrollTop e - scrollTop s,
           lastAxis := a, lastYDirection := dy, lastXDirection := dx, lastDirection := d,
           scrollWidth := el_scrollWidth e, scrollHeight := el_scrollHeight e,
           startX := el_scrollLeft e, startY := el_scrollTop e,
           lastTotalX := 0, lastTotalY := 0, nowScrolling := True,
           emitted := emitted s
             @ (if a \<noteq> lastAxis s then [EvChangeAxis a] else [])
             @ (if dx \<noteq> lastXDirection s then [EvChangeLastXDirection dx] else [])
             @ (if dy \<noteq> lastYDirection s then [EvChangeLastYDirection dy] else [])
             @ (if d \<noteq> lastDirection s then [EvChangeLastDirection d] else [])
             @ [EvTick ScrollStart (p\<lparr>p_totalX := 0, p_totalY := 0\<rparr>)]\<rparr>)"
  using scrollPass_start_eq [OF assms]
  by (simp add: Let_def emitChanges_emitted_eq)

lemma episodeChanged_scrollPass:
  "episodeChanged s (scrollPass e s) =
   episodeChanged s (classifyTick s (updateScrollPositions e s))"
  by (simp add: episodeChanged_def)

lemma scrollPass_end_start:
  assumes "nowScrolling s" and "episodeChanged s (classifyTick s (updateScrollPositions e s))"
  shows "scrollPass e s =
     (let a = tickAxis (baseAxis s) (el_scrollLeft e - scrollLeft s) (el_scrollTop e - scrollTop s);
          dy = tickYDirection (scrollTop s) (el_scrollTop e) (lastYDirection s);
          dx = tickXDirection (scrollLeft s) (el_scrollLeft e) (lastXDirection s);
          d = (if a = AxisY then YDir dy else XDir dx);
          p = \<lparr>p_top = el_scrollTop e, p_left = el_scrollLeft e,
               p_bottom = scrollHeight s - el_scrollTop e - containerHeight s,
               p_right = scrollWidth s - el_scrollLeft e - containerWidth s,
               p_axis = a, p_direction = d, p_directionX = dx, p_directionY = dy,
               p_tickedX = el_scrollLeft e - scrollLeft s,
               p_tickedY = el_scrollTop e - scrollTop s,
               p_totalX = lastTotalX s, p_totalY = lastTotalY s\<rparr>
      in s\<lparr>scrollTop := el_scrollTop e, scrollLeft := el_scrollLeft e,
           scrollBottom := scrollHeight s - el_scrollTop e - containerHeight s,
           scrollRight := scrollWidth s - el_scrollLeft e - containerWidth s,
           tickedX := el_scrollLeft e - scrollLeft s, tickedY := el_scrollTop e - scrollTop s,
           lastAxis := a, lastYDirection := dy, lastXDirection := dx, lastDirection := d,
           scrollWidth := el_scrollWidth e, scrollHeight := el_scrollHeight e,
           startX := el_scrollLeft e, startY := el_scrollTop e,
           lastTotalX := 0, lastTotalY := 0, nowScrolling := True,
           emitted := emitted s
             @ (if a \<noteq> lastAxis s then [EvChangeAxis a] else [])
             @ (if dx \<noteq> lastXDirection s then [EvChangeLastXDirection dx] else [])
             @ (if dy \<noteq> lastYDirection s then [EvChangeLastYDirection dy] else [])
             @ (if d \<noteq> lastDirection s then [EvChangeLastDirection d] else [])
             @ [EvTick ScrollEnd p, EvTick ScrollStart (p\<lparr>p_totalX := 0, p_totalY := 0\<rparr>)]\<rparr>)"
  using scrollPass_reversal_eq [OF assms(1) assms(2) [folded episodeChanged_scrollPass]]
  by (simp add: Let_def emitChanges_emitted_eq)

lemma scrollPass_tick:
  assumes "nowScrolling s" and "\<not> episodeChanged s (classifyTick s (updateScrollPositions e s))"
  shows "scrollPass e s =
     (let a = tickAxis (baseAxis s) (el_scrollLeft e - scrollLeft s) (el_scrollTop e - scrollTop s);
          dy = tickYDirection (scrollTop s) (el_scrollTop e) (lastYDirection s);
          dx = tickXDirection (scrollLeft s) (el_scrollLeft e) (lastXDirection s);
          d = (if a = AxisY then YDir dy else XDir dx);
          p = \<lparr>p_top = el_scrollTop e, p_left = el_scrollLeft e,
               p_bottom = scrollHeight s - el_scrollTop e - containerHeight s,
               p_right = scrollWidth s - el_scrollLeft e - containerWidth s,
               p_axis = a, p_direction = d, p_directionX = dx, p_directionY = dy,
               p_tickedX = el_scrollLeft e - scrollLeft s,
               p_tickedY = el_scrollTop e - scrollTop s,
               p_totalX = lastTotalX s, p_totalY = lastTotalY s\<rparr>
      in s\<lparr>scrollTop := el_scrollTop e, scrollLeft := el_scrollLeft e,
           scrollBottom := scrollHeight s - el_scrollTop e - containerHeight s,
           scrollRight := scrollWidth s - el_scrollLeft e - containerWidth s,
           tickedX := el_scrollLeft e - scrollLeft s, tickedY := el_scrollTop e - scrollTop s,
           lastAxis := a, lastYDirection := dy, lastXDirection := dx, lastDirection := d,
           lastTotalX := el_scrollLeft e - startX s, lastTotalY := el_scrollTop e - startY s,
           emitted := emitted s
             @ (if a \<noteq> lastAxis s then [EvChangeAxis a] else [])
             @ (if dx \<noteq> lastXDirection s then [EvChangeLastXDirection dx] else [])
             @ (if dy \<noteq> lastYDirection s then [EvChangeLastYDirection dy] else [])
             @ (if d \<noteq> lastDirection s then [EvChangeLastDirection d] else [])
             @ [EvTick Scroll (p\<lparr>p_totalX := el_scrollLeft e - startX s, p_totalY := el_scrollTop e - startY s\<rparr>)]\<rparr>)"
  using scrollPass_tick_eq [OF assms(1) assms(2) [folded episodeChanged_scrollPass]]
  by (simp add: Let_def emitChanges_emitted_eq)

text \<open>Evaluation of the scenarios.\<close>

lemma fields_simps [simp]:
  "scrollingJudgeInterval (fields st) = (case set_scrollingJudgeInterval st of Some i \<Rightarrow> i | None \<Rightarrow> 500)"
  "baseAxis (fields st) = (case set_baseAxis st of Some a \<Rightarrow> a | None \<Rightarrow> AxisY)"
  "el (fields st) = None"
  "isDocumentElement (fields st) = False"
  "isBodyElement (fields st) = False"
  "isRootElement (fields st) = False"
  "state (fields st) = Pending"
  "containerWidth (fields st) = 0"
  "containerHeight (fields st) = 0"
  "scrollWidth (fields st) = 0"
  "scrollHeight (fields st) = 0"
  "scrollTop (fields st) = 0"
  "scrollRight (fields st) = 0"
  "scrollBottom (fields st) = 0"
  "scrollLeft (fields st) = 0"
  "lastAxis (fields st) = (case set_baseAxis st of Some a \<Rightarrow> a | None \<Rightarrow> AxisY)"
  "lastDirection (fields st) = (if (case set_baseAxis st of Some a \<Rightarrow> a | None \<Rightarrow> AxisY) = AxisY then YDir DirTop else XDir DirLeft)"
  "lastYDirection (fields st) = DirTop"
  "lastXDirection (fields st) = DirLeft"
  "nowScrolling (fields st) = False"
  "readyResolvers (fields st) = []"
  "scrollingJudgeTimerId (fields st) = None"
  "startX (fields st) = 0"
  "startY (fields st) = 0"
  "tickedX (fields st) = 0"
  "tickedY (fields st) = 0"
  "lastTotalX (fields st) = 0"
  "lastTotalY (fields st) = 0"
  "scrollListener (fields st) = False"
  "resizeListener (fields st) = False"
  "resizeObserver (fields st) = False"
  "scrollToResult (fields st) = None"
  "scrollStoppers (fields st) = []"
  "scrollSizeOvserverPollingId (fields st) = None"
  "scrollSizeOvserverSuspended (fields st) = False"
  "visibilityListener (fields st) = True"
  "emitted (fields st) = []"
  by (simp_all add: fields_def Let_def)

lemma demoSetting_simps [simp]:
  "set_el (demoSetting base) = Some (Selector ''#box'')"
  "set_scrollingJudgeInterval (demoSetting base) = None"
  "set_baseAxis (demoSetting base) = Some base"
  "set_scrollSizeOvserver (demoSetting base) = None"
  by (simp_all add: demoSetting_def)

lemma fields_scrollSizeOvserver [simp]:
  "scrollSizeOvserver (fields (demoSetting base)) = None"
  by (simp add: fields_def Let_def)

lemma demoHost_simps [simp]:
  "dom demoHost r = demoElement"
  "docClientWidth demoHost = 1024"
  "docClientHeight demoHost = 768"
  "querySelector demoHost ''#box'' = Some 1"
  "scrollingElement demoHost = Some 0"
  "defaultContainer demoHost = Some 0"
  "isVisible demoHost = True"
  "timers demoHost = []"
  "nextTimerId demoHost = 0"
  "jobs demoHost = []"
  "results demoHost = []"
  "scrollSuppressed demoHost = []"
  by (simp_all add: demoHost_def)

lemma demoElement_simps [simp]:
  "clientWidth demoElement = 300"
  "clientHeight demoElement = 200"
  "el_scrollWidth demoElement = 1200"
  "el_scrollHeight demoElement = 1000"
  "el_scrollTop demoElement = 40"
  "el_scrollLeft demoElement = 10"
  "el_isDocumentElement demoElement = False"
  "el_isBodyElement demoElement = False"
  by (simp_all add: demoElement_def)

lemmas lifecycle_defs =
  newScroller_def setElement_def resolveTarget_def stop_def checkDestroyed_def isDestroyed_def isRunning_def
  isPending_def Scroller_setup_def updateScrollable_def scrollEnabled_def scrollEnable_def
  enableScroll_def update'_def updateContainerSize_def updateScrollSize_def
  updateScrollPositions_def setState_def emit_def start_def ready_def runJob_def
  startResume_def startListeners_def stopListeners_def startScrollSizeOvserver_def
  stopScrollSizeOvserver_def Let_def

lemma demoRunning_eq:
  "demoRunning base =
     ((fields (demoSetting base))
       \<lparr>el := Some 1, state := Running, containerWidth := 300, containerHeight := 200,
        scrollWidth := 1200, scrollHeight := 1000, scrollTop := 40, scrollLeft := 10,
        scrollRight := 890, scrollBottom := 760,
        scrollListener := True, resizeObserver := True,
        emitted := [EvResize 300 200, EvChangeState Ready, EvReady, EvChangeState Running]\<rparr>,
      demoHost)"
  by (simp add: demoRunning_def lifecycle_defs)



lemma scrollPass_timer [simp]: "scrollingJudgeTimerId (scrollPass e s) = scrollingJudgeTimerId s"
  by (simp add: scrollPass_def judgeScrollStart_def judgeScrolling_def triggerScrollTick_def
        emitChanges_eq classifyTick_eq updateScrollPositions_def updateScrollSize_def emit_def Let_def)


lemma hostScroll_simps [simp]:
  "dom (hostScroll r x y h) r = (dom h r)\<lparr>el_scrollLeft := x, el_scrollTop := y\<rparr>"
  "nextTimerId (hostScroll r x y h) = nextTimerId h"
  "timers (hostScroll r x y h) = timers h"
  "jobs (hostScroll r x y h) = jobs h"
  "results (hostScroll r x y h) = results h"
  by (simp_all add: hostScroll_def)

lemma notify_enabled:
  assumes "el s = Some r" "scrollStoppers s = []"
  shows "notify x y (s, h) =
     ((scrollPass ((dom h r)\<lparr>el_scrollLeft := x, el_scrollTop := y\<rparr>) s)
        \<lparr>scrollingJudgeTimerId := Some (nextTimerId h)\<rparr>,
      snd (setTimer (case scrollingJudgeTimerId s of None \<Rightarrow> hostScroll r x y h
                     | Some j \<Rightarrow> clearTimer j (hostScroll r x y h))))"
  using assms by (simp add: notify_def onScroll_enabled scrollEnabled_def)

lemmas pass_eval =
  notify_enabled scrollPass_start scrollPass_end_start scrollPass_tick
  episodeChanged_def tickAxis_def tickYDirection_def tickXDirection_def Let_def


subsection \<open>The scroll state machine\<close>

text \<open>The scenario states, computed once.\<close>

lemma downEpisode_eq:
  "downEpisode =
     ((fields (demoSetting AxisY))
       \<lparr>el := Some 1, state := Running, containerWidth := 300, containerHeight := 200,
        scrollWidth := 1200, scrollHeight := 1000, scrollTop := 100, scrollLeft := 10,
        scrollRight := 890, scrollBottom := 700,
        lastDirection := YDir DirBottom, lastYDirection := DirBottom, nowScrolling := True,
        scrollingJudgeTimerId := Some 0, startX := 10, startY := 100, tickedY := 60,
        scrollListener := True, resizeObserver := True,
        emitted := [EvResize 300 200, EvChangeState Ready, EvReady, EvChangeState Running,
          EvChangeLastYDirection DirBottom, EvChangeLastDirection (YDir DirBottom),
          EvTick ScrollStart
            \<lparr>p_top = 100, p_left = 10, p_bottom = 700, p_right = 890,
             p_axis = AxisY, p_direction = YDir DirBottom,
             p_directionX = DirLeft, p_directionY = DirBottom,
             p_tickedX = 0, p_tickedY = 60, p_totalX = 0, p_totalY = 0\<rparr>]\<rparr>,
      (hostScroll 1 10 100 demoHost)\<lparr>timers := [0], nextTimerId := 1\<rparr>)"
  by (simp add: downEpisode_def demoRunning_eq pass_eval setTimer_def)

lemma reversal_eq:
  "fst (notify 10 60 downEpisode) =
     (fields (demoSetting AxisY))
       \<lparr>el := Some 1, state := Running, containerWidth := 300, containerHeight := 200,
        scrollWidth := 1200, scrollHeight := 1000, scrollTop := 60, scrollLeft := 10,
        scrollRight := 890, scrollBottom := 740,
        lastDirection := YDir DirTop, lastYDirection := DirTop, nowScrolling := True,
        scrollingJudgeTimerId := Some 1, startX := 10, startY := 60, tickedY := - 40,
        scrollListener := True, resizeObserver := True,
        emitted := [EvResize 300 200, EvChangeState Ready, EvReady, EvChangeState Running,
          EvChangeLastYDirection DirBottom, EvChangeLastDirection (YDir DirBottom),
          EvTick ScrollStart
            \<lparr>p_top = 100, p_left = 10, p_bottom = 700, p_right = 890,
             p_axis = AxisY, p_direction = YDir DirBottom,
             p_directionX = DirLeft, p_directionY = DirBottom,
             p_tickedX = 0, p_tickedY = 60, p_totalX = 0, p_totalY = 0\<rparr>,
          EvChangeLastYDirection DirTop, EvChangeLastDirection (YDir DirTop),
          EvTick ScrollEnd
            \<lparr>p_top = 60, p_left = 10, p_bottom = 740, p_right = 890,
             p_axis = AxisY, p_direction = YDir DirTop,
             p_directionX = DirLeft, p_directionY = DirTop,
             p_tickedX = 0, p_tickedY = - 40, p_totalX = 0, p_totalY = 0\<rparr>,
          EvTick ScrollStart
            \<lparr>p_top = 60, p_left = 10, p_bottom = 740, p_right = 890,
             p_axis = AxisY, p_direction = YDir DirTop,
             p_directionX = DirLeft, p_directionY = DirTop,
             p_tickedX = 0, p_tickedY = - 40, p_totalX = 0, p_totalY = 0\<rparr>]\<rparr>"
  by (simp add: downEpisode_eq pass_eval)

text \<open>
  Claim C1 as stated fails. In \<open>downEpisode\<close> an episode is active on the vertical axis
  and the last direction is \<open>bottom\<close>; the next notification moves up. The pass emits
  \<open>scrollEnd\<close> and, in the same pass, \<open>scrollStart\<close>, and the episode is open again
  when it returns.
\<close>

theorem onScroll_reversal_counterexample:
  "nowScrolling (fst downEpisode)
   \<and> scrollEnabled (fst downEpisode)
   \<and> lastAxis (fst downEpisode) = AxisY
   \<and> lastYDirection (fst downEpisode) = DirBottom
   \<and> lastYDirection (fst (notify 10 60 downEpisode)) = DirTop
   \<and> ticksSince (fst downEpisode) (fst (notify 10 60 downEpisode)) =
         [EvTick ScrollEnd
            \<lparr>p_top = 60, p_left = 10, p_bottom = 740, p_right = 890,
             p_axis = AxisY, p_direction = YDir DirTop,
             p_directionX = DirLeft, p_directionY = DirTop,
             p_tickedX = 0, p_tickedY = - 40, p_totalX = 0, p_totalY = 0\<rparr>,
          EvTick ScrollStart
            \<lparr>p_top = 60, p_left = 10, p_bottom = 740, p_right = 890,
             p_axis = AxisY, p_direction = YDir DirTop,
             p_directionX = DirLeft, p_directionY = DirTop,
             p_tickedX = 0, p_tickedY = - 40, p_totalX = 0, p_totalY = 0\<rparr>]
   \<and> nowScrolling (fst (notify 10 60 downEpisode))"
  by (simp add: reversal_eq ticksSince_def emittedSince_def)
     (simp add: downEpisode_eq scrollEnabled_def)


lemma notify_onScroll:
  "el s = Some r \<Longrightarrow>
   onScroll s (hostScroll r x y h) = (fst (onScroll s (hostScroll r x y h)), notify x y (s, h))"
  by (simp add: notify_def split: prod.splits)

text \<open>
  Claim C1, amended. For every raw scroll notification that arrives while an episode is
  active, if the classified axis or the direction of the previous axis changed, the
  pass emits \<open>scrollEnd\<close> for the previous episode, with the totals of the previous
  tick, and then \<open>scrollStart\<close> in the same pass: the second test reads
  \<^verbatim>\<open>_nowScrolling\<close> after \<^verbatim>\<open>scrollEnd\<close> has cleared it. No \<open>scroll\<close> tick is emitted,
  and the episode is active again when the pass returns.
\<close>

theorem onScroll_reversal_restarts:
  assumes "onScroll s h = (res, s', h')"
    and "el s = Some r" and "scrollEnabled s" and "nowScrolling s"
    and "episodeChanged s s'"
  shows "ticksSince s s' =
           [EvTick ScrollEnd ((lastPayload s')\<lparr>p_totalX := lastTotalX s, p_totalY := lastTotalY s\<rparr>),
            EvTick ScrollStart (lastPayload s')]
         \<and> nowScrolling s'"
proof -
  have s': "s' = (scrollPass (dom h r) s)\<lparr>scrollingJudgeTimerId := Some (nextTimerId h)\<rparr>"
    using assms(1) by (simp add: onScroll_enabled [OF assms(2,3)])
  have "episodeChanged s (scrollPass (dom h r) s)"
    using assms(5) by (simp add: s' episodeChanged_def)
  from scrollPass_reversal [OF assms(4) this]
  obtain ch where "filter isTick ch = []"
     "emitted (scrollPass (dom h r) s) = emitted s @ ch @
         [EvTick ScrollEnd ((lastPayload (scrollPass (dom h r) s))\<lparr>p_totalX := lastTotalX s, p_totalY := lastTotalY s\<rparr>),
          EvTick ScrollStart (lastPayload (scrollPass (dom h r) s))]"
     "nowScrolling (scrollPass (dom h r) s)"
    by blast
  then show ?thesis
    by (simp add: s' ticksSince_def emittedSince_def lastPayload_def)
qed



text \<open>The amended claim at the reversal of \<open>downEpisode\<close>.\<close>

theorem onScroll_reversal_restarts_witness:
  "el (fst downEpisode) = Some 1
   \<and> scrollEnabled (fst downEpisode)
   \<and> nowScrolling (fst downEpisode)
   \<and> episodeChanged (fst downEpisode) (fst (notify 10 60 downEpisode))
   \<and> ticksSince (fst downEpisode) (fst (notify 10 60 downEpisode)) =
         [EvTick ScrollEnd
            ((lastPayload (fst (notify 10 60 downEpisode)))
               \<lparr>p_totalX := lastTotalX (fst downEpisode),
                p_totalY := lastTotalY (fst downEpisode)\<rparr>),
          EvTick ScrollStart (lastPayload (fst (notify 10 60 downEpisode)))]
   \<and> nowScrolling (fst (notify 10 60 downEpisode))"
proof -
  have b: "el (fst downEpisode) = Some 1" "scrollEnabled (fst downEpisode)"
    "nowScrolling (fst downEpisode)"
    by (simp_all add: downEpisode_eq scrollEnabled_def)
  have c: "episodeChanged (fst downEpisode) (fst (notify 10 60 downEpisode))"
    by (simp add: episodeChanged_def reversal_eq) (simp add: downEpisode_eq)
  have o: "onScroll (fst downEpisode) (hostScroll 1 10 60 (snd downEpisode)) =
      (fst (onScroll (fst downEpisode) (hostScroll 1 10 60 (snd downEpisode))),
       fst (notify 10 60 downEpisode), snd (notify 10 60 downEpisode))"
    using notify_onScroll [OF b(1), of 10 60 "snd downEpisode"] by simp
  show ?thesis
    using onScroll_reversal_restarts [OF o b c] b c by simp
qed

text \<open>
  Claim C8. For every raw scroll notification, each direction follows the movement of
  its own axis between the offsets cached before and after the pass: the vertical
  direction becomes \<open>bottom\<close> when the offset grew and \<open>top\<close> when it shrank, the
  horizontal one \<open>right\<close> and \<open>left\<close>, and a direction whose axis did not move is
  kept. With scrolling enabled the offsets after the pass are those of the element.
\<close>

theorem onScroll_directions:
  assumes "onScroll s h = (res, s', h')"
  shows "lastYDirection s' =
           (if scrollTop s < scrollTop s' then DirBottom
            else if scrollTop s > scrollTop s' then DirTop else lastYDirection s)
       \<and> lastXDirection s' =
           (if scrollLeft s < scrollLeft s' then DirRight
            else if scrollLeft s > scrollLeft s' then DirLeft else lastXDirection s)
       \<and> (\<forall>r. el s = Some r \<and> scrollEnabled s \<longrightarrow>
              scrollTop s' = el_scrollTop (dom h r) \<and> scrollLeft s' = el_scrollLeft (dom h r))"
  using assms
proof (cases rule: onScroll_cases)
  case unbound
  then show ?thesis by simp
next
  case (disabled r)
  then show ?thesis by simp
next
  case (enabled r)
  then show ?thesis by (simp add: tickYDirection_def tickXDirection_def)
qed


text \<open>Claim C8 at the first notification of \<open>downEpisode\<close>: down by 60, no horizontal move.\<close>

theorem onScroll_directions_witness:
  "scrollTop (fst (demoRunning AxisY)) < scrollTop (fst downEpisode)
   \<and> lastYDirection (fst downEpisode) = DirBottom
   \<and> scrollLeft (fst (demoRunning AxisY)) = scrollLeft (fst downEpisode)
   \<and> lastXDirection (fst downEpisode) = lastXDirection (fst (demoRunning AxisY))
   \<and> scrollTop (fst downEpisode) = 100"
proof -
  have b: "el (fst (demoRunning AxisY)) = Some 1" "scrollEnabled (fst (demoRunning AxisY))"
    by (simp_all add: demoRunning_eq scrollEnabled_def)
  have o: "onScroll (fst (demoRunning AxisY)) (hostScroll 1 10 100 (snd (demoRunning AxisY))) =
      (fst (onScroll (fst (demoRunning AxisY)) (hostScroll 1 10 100 (snd (demoRunning AxisY)))),
       fst downEpisode, snd downEpisode)"
    using notify_onScroll [OF b(1), of 10 100 "snd (demoRunning AxisY)"]
    by (simp add: downEpisode_def)
  have t: "scrollTop (fst (demoRunning AxisY)) = 40" "scrollLeft (fst (demoRunning AxisY)) = 10"
    "scrollTop (fst downEpisode) = 100" "scrollLeft (fst downEpisode) = 10"
    by (simp_all add: demoRunning_eq downEpisode_eq)
  show ?thesis
    using onScroll_directions [OF o] b t by simp
qed

text \<open>
  Claim C2 fails on the code where the two ticked amounts have the same magnitude and
  opposite signs: the tie is tested with \<^verbatim>\<open>tickedX === tickedY\<close> on the signed
  amounts, so such a tick falls through to the comparison of the magnitudes and is
  classified \<open>y\<close>, whatever the base axis. Here the base axis is \<open>x\<close>, the tick is
  \<open>(5, -5)\<close>, and the axis becomes \<open>y\<close>. (\<open>tickAxis_cases\<close> and \<open>onScroll_axis\<close>
  give the classification in general.)
\<close>

theorem onScroll_axis_opposite_ticks:
  "baseAxis (fst (demoRunning AxisX)) = AxisX
   \<and> scrollEnabled (fst (demoRunning AxisX))
   \<and> tickedX (fst (notify 15 35 (demoRunning AxisX))) = 5
   \<and> tickedY (fst (notify 15 35 (demoRunning AxisX))) = - 5
   \<and> lastAxis (fst (notify 15 35 (demoRunning AxisX))) = AxisY"
  by (simp add: demoRunning_eq notify_enabled scrollEnabled_def tickAxis_def)

text \<open>
  Claim C10. While scrolling is disabled, a raw scroll notification writes the cached
  \<open>scrollLeft\<close> and \<open>scrollTop\<close> back to the element and returns: the controller is
  left exactly as it was (no event, no measurement, axis, direction or episode change),
  and nothing of the host but the two offsets of the element changes; the idle timer is
  not re-armed.
\<close>

theorem onScroll_disabled_writes_back:
  assumes "el s = Some r" and "\<not> scrollEnabled s"
  shows "onScroll s h =
     (None, s,
      h\<lparr>dom := (dom h)(r := (dom h r)\<lparr>el_scrollLeft := scrollLeft s,
                                          el_scrollTop := scrollTop s\<rparr>)\<rparr>)"
  using assms by (simp add: onScroll_def)

lemma stoppedScroller_eq:
  "stoppedScroller =
     ((fst (demoRunning AxisY))\<lparr>scrollStoppers := [StopperNumber 7]\<rparr>,
      demoHost\<lparr>scrollSuppressed := [1]\<rparr>)"
  by (simp add: stoppedScroller_def demoRunning_eq pushScrollStopper_def updateScrollable_def
        scrollEnabled_def scrollDisable_def cancel_def disableScroll_def Let_def)

text \<open>
  Claim C10 at the stopped controller: the element has moved to 100 and is put back at
  the cached offsets \<open>(10, 40)\<close>.
\<close>

theorem onScroll_disabled_writes_back_witness:
  "el (fst stoppedScroller) = Some 1
   \<and> \<not> scrollEnabled (fst stoppedScroller)
   \<and> dom (hostScroll 1 10 100 (snd stoppedScroller)) 1
       = demoElement\<lparr>el_scrollLeft := 10, el_scrollTop := 100\<rparr>
   \<and> onScroll (fst stoppedScroller) (hostScroll 1 10 100 (snd stoppedScroller)) =
       (None, fst stoppedScroller,
        (hostScroll 1 10 100 (snd stoppedScroller))
          \<lparr>dom := (dom (hostScroll 1 10 100 (snd stoppedScroller)))
                    (1 := demoElement\<lparr>el_scrollLeft := 10, el_scrollTop := 40\<rparr>)\<rparr>)"
proof -
  have b: "el (fst stoppedScroller) = Some 1" "\<not> scrollEnabled (fst stoppedScroller)"
    by (simp_all add: stoppedScroller_eq demoRunning_eq scrollEnabled_def)
  have v: "scrollLeft (fst stoppedScroller) = 10" "scrollTop (fst stoppedScroller) = 40"
    by (simp_all add: stoppedScroller_eq demoRunning_eq)
  have d: "dom (snd stoppedScroller) (Suc 0) = demoElement"
    by (simp add: stoppedScroller_eq)
  show ?thesis
    using onScroll_disabled_writes_back [OF b, of "hostScroll 1 10 100 (snd stoppedScroller)"] b
    by (simp add: v d)
qed

subsection \<open>Measurement\<close>

text \<open>
  \<^verbatim>\<open>_updateScrollPositions\<close> derives the right and bottom offsets from the cached sizes,
  so the invariant holds after it and after the full refresh \<^verbatim>\<open>_update\<close>. A refresh
  of the content size alone (\<^verbatim>\<open>_updateScrollSize\<close>, as run by the polling timer and at
  the start of an episode) that finds a new size breaks it: it assigns
  \<^verbatim>\<open>_scrollWidth\<close> and \<^verbatim>\<open>_scrollHeight\<close> and derives nothing.
\<close>

lemma updateScrollPositions_measured: "measured (updateScrollPositions e s)"
  by (simp add: measured_def updateScrollPositions_def Let_def)

lemma update'_measured:
  assumes "update' w ht s h = (None, s')"
  shows "measured s'"
  using assms
  by (auto simp: update'_def updateScrollPositions_measured split: prod.splits option.splits)

lemma updateScrollSize_stale:
  assumes "measured s"
    and "el_scrollHeight e \<noteq> scrollHeight s \<or> el_scrollWidth e \<noteq> scrollWidth s"
  shows "\<not> measured (updateScrollSize e s)"
  using assms by (auto simp: measured_def updateScrollSize_def)

lemma hostContentSize_simps [simp]:
  "dom (hostContentSize r w ht h) r = (dom h r)\<lparr>el_scrollWidth := w, el_scrollHeight := ht\<rparr>"
  "nextTimerId (hostContentSize r w ht h) = nextTimerId h"
  "timers (hostContentSize r w ht h) = timers h"
  by (simp_all add: hostContentSize_def)

text \<open>
  Claim C5 fails on the code. \<open>grownContent\<close> is a running controller at rest whose
  cached measurement satisfies the invariant; the content of its element has grown from
  1000 to 1500 since. The next scroll notification (to the offset 100) starts an
  episode: the positions are measured first, against the old height, and the content
  size is refreshed after them. When the pass returns, \<open>scrollHeight\<close> is 1500 but
  \<open>scrollBottom\<close> is still \<open>1000 - 100 - 200 = 700\<close>, and the invariant is broken.
\<close>

theorem onScroll_start_stale_bottom:
  "measured (fst grownContent)
   \<and> scrollHeight (fst grownContent) = 1000
   \<and> el_scrollHeight (dom (snd grownContent) 1) = 1500
   \<and> scrollHeight (fst (notify 10 100 grownContent)) = 1500
   \<and> scrollTop (fst (notify 10 100 grownContent)) = 100
   \<and> containerHeight (fst (notify 10 100 grownContent)) = 200
   \<and> scrollBottom (fst (notify 10 100 grownContent)) = 700
   \<and> \<not> measured (fst (notify 10 100 grownContent))"
  by (simp add: grownContent_def demoRunning_eq measured_def pass_eval)

subsection \<open>Scroll stoppers\<close>

lemma indexOf_None:
  "indexOf strictEquals xs t = None \<longleftrightarrow> t = StopperNaN \<or> t \<notin> set xs"
  by (induction xs) (auto simp: strictEquals_def)

lemma indexOf_splice1:
  assumes "indexOf strictEquals xs t = Some i"
  shows "splice1 i xs = remove1 t xs"
proof -
  have "t \<noteq> StopperNaN" using assms indexOf_None [of xs t] by auto
  then show ?thesis
    using assms
    by (induction xs arbitrary: i) (auto simp: strictEquals_def split: if_splits)
qed

lemma cancel_scrollStoppers [simp]: "scrollStoppers (fst (cancel s h)) = scrollStoppers s"
  by (simp add: cancel_def clearScrollToResult_def split: option.splits)

lemma updateScrollable_scrollStoppers [simp]:
  "scrollStoppers (fst (snd (updateScrollable s h))) = scrollStoppers s"
proof -
  have "fst (snd (updateScrollable s h)) = (if scrollEnabled s then s else fst (cancel s h))"
    by (simp add: updateScrollable_def scrollEnable_def scrollDisable_def case_prod_beta)
  then show ?thesis by simp
qed

lemma pushScrollStopper_scrollStoppers:
  "scrollStoppers (fst (snd (pushScrollStopper t s h))) =
     (if t \<in> set (scrollStoppers s) then scrollStoppers s else scrollStoppers s @ [t])"
  by (simp add: pushScrollStopper_def arrIncludes_iff Let_def)

lemma removeScrollStopper_scrollStoppers:
  "scrollStoppers (fst (snd (removeScrollStopper t s h))) =
     (if t = StopperNaN then scrollStoppers s else remove1 t (scrollStoppers s))"
proof (cases "indexOf strictEquals (scrollStoppers s) t")
  case None
  then have "t = StopperNaN \<or> t \<notin> set (scrollStoppers s)" by (simp add: indexOf_None)
  then show ?thesis
    by (auto simp: removeScrollStopper_def None remove1_idem)
next
  case (Some i)
  then have "t \<noteq> StopperNaN" using indexOf_None [of "scrollStoppers s" t] by auto
  then show ?thesis
    using Some by (simp add: removeScrollStopper_def Let_def indexOf_splice1)
qed

text \<open>
  Short of the removal of \<^verbatim>\<open>NaN\<close>, the array \<^verbatim>\<open>_scrollStoppers\<close> holds the set of
  the specification: after a sequence of pushes and removals that removes no
  \<^verbatim>\<open>NaN\<close>, starting from an array without duplicates, its elements are the set that
  the same pushes and removals leave.
\<close>

lemma stopperCalls_set:
  assumes "distinct (scrollStoppers s)" and "Remove StopperNaN \<notin> set cs"
  shows "set (scrollStoppers (fst (stopperCalls cs s h))) = stopperSet cs (set (scrollStoppers s))
       \<and> distinct (scrollStoppers (fst (stopperCalls cs s h)))"
  using assms
proof (induction cs arbitrary: s h)
  case Nil
  then show ?case by simp
next
  case (Cons c cs)
  have n: "Remove StopperNaN \<notin> set cs" using Cons.prems(2) by simp
  show ?case
  proof (cases c)
    case (Push t)
    obtain res s' h' where p: "pushScrollStopper t s h = (res, s', h')"
      by (cases "pushScrollStopper t s h")
    have st: "scrollStoppers s' =
        (if t \<in> set (scrollStoppers s) then scrollStoppers s else scrollStoppers s @ [t])"
      using pushScrollStopper_scrollStoppers [of t s h] p by simp
    then have d: "distinct (scrollStoppers s')" using Cons.prems(1) by simp
    have "set (scrollStoppers s') = insert t (set (scrollStoppers s))" using st by auto
    with Cons.IH [OF d n, of h'] show ?thesis by (simp add: Push p)
  next
    case (Remove t)
    then have t: "t \<noteq> StopperNaN" using Cons.prems(2) by auto
    obtain res s' h' where p: "removeScrollStopper t s h = (res, s', h')"
      by (cases "removeScrollStopper t s h")
    have st: "scrollStoppers s' = remove1 t (scrollStoppers s)"
      using removeScrollStopper_scrollStoppers [of t s h] p t by simp
    then have d: "distinct (scrollStoppers s')" using Cons.prems(1) by simp
    have "set (scrollStoppers s') = set (scrollStoppers s) - {t}"
      using st Cons.prems(1) by simp
    with Cons.IH [OF d n, of h'] show ?thesis by (simp add: Remove p)
  qed
qed

lemma stopperCalls_scrollEnabled:
  assumes "distinct (scrollStoppers s)" and "Remove StopperNaN \<notin> set cs"
  shows "scrollEnabled (fst (stopperCalls cs s h)) = (stopperSet cs (set (scrollStoppers s)) = {})"
proof -
  have "scrollEnabled (fst (stopperCalls cs s h)) =
        (set (scrollStoppers (fst (stopperCalls cs s h))) = {})"
    by (simp add: scrollEnabled_def)
  then show ?thesis using stopperCalls_set [OF assms] by simp
qed

text \<open>
  Claim C6 fails on the code for the token \<^verbatim>\<open>NaN\<close>, a \<^verbatim>\<open>number\<close> and so a
  \<^verbatim>\<open>ScrollStopper\<close>. \<^verbatim>\<open>pushScrollStopper\<close> looks the token up with \<^verbatim>\<open>includes\<close>,
  which finds \<^verbatim>\<open>NaN\<close>, and \<^verbatim>\<open>removeScrollStopper\<close> with \<^verbatim>\<open>indexOf\<close>, which never
  does. On the running controller, which has no stopper, pushing \<^verbatim>\<open>NaN\<close> and removing
  it again leaves the token in the array and scrolling disabled, where the set of the
  specification is empty; a second push of \<^verbatim>\<open>NaN\<close> is the no-operation the claim
  says it is; and with the two distinct tokens \<^verbatim>\<open>NaN\<close> and \<open>1\<close> pushed, removing both
  does not enable scrolling again.
\<close>

theorem removeScrollStopper_nan_stays:
  "scrollEnabled (fst (demoRunning AxisY))
   \<and> scrollStoppers (fst (stopperCalls [Push StopperNaN, Remove StopperNaN]
        (fst (demoRunning AxisY)) (snd (demoRunning AxisY)))) = [StopperNaN]
   \<and> \<not> scrollEnabled (fst (stopperCalls [Push StopperNaN, Remove StopperNaN]
        (fst (demoRunning AxisY)) (snd (demoRunning AxisY))))
   \<and> stopperSet [Push StopperNaN, Remove StopperNaN] {} = {}
   \<and> scrollStoppers (fst (stopperCalls [Push StopperNaN, Push StopperNaN]
        (fst (demoRunning AxisY)) (snd (demoRunning AxisY)))) = [StopperNaN]
   \<and> StopperNaN \<noteq> StopperNumber 1
   \<and> scrollStoppers (fst (stopperCalls
        [Push StopperNaN, Push (StopperNumber 1), Remove StopperNaN, Remove (StopperNumber 1)]
        (fst (demoRunning AxisY)) (snd (demoRunning AxisY)))) = [StopperNaN]
   \<and> \<not> scrollEnabled (fst (stopperCalls
        [Push StopperNaN, Push (StopperNumber 1), Remove StopperNaN, Remove (StopperNumber 1)]
        (fst (demoRunning AxisY)) (snd (demoRunning AxisY))))
   \<and> stopperSet
        [Push StopperNaN, Push (StopperNumber 1), Remove StopperNaN, Remove (StopperNumber 1)] {}
       = {}"
  by (simp add: demoRunning_eq scrollEnabled_def pushScrollStopper_def removeScrollStopper_def
        updateScrollable_def scrollDisable_def scrollEnable_def cancel_def disableScroll_def
        enableScroll_def strictEquals_def Let_def insert_Diff_if)

subsection \<open>Animated scroll requests\<close>

lemma animate_keeps:
  assumes "p < length (results h)"
  shows "results (snd (animate opts h)) ! p = results h ! p"
    and "p < length (results (snd (animate opts h)))"
  using assms by (simp_all add: animate_def nth_append split: option.splits)

lemma by_keeps_in_flight:
  assumes "p < length (results h)" and "results h ! p = InFlight"
  shows "\<not> resolved p (snd (snd (Scroller_by scrollBy diffX diffY options s h)))"
proof (cases "animate (createMergedScrollOptions options s) h")
  case (Pair a h1)
  have k: "results h1 ! p = InFlight" "p < length (results h1)"
    using animate_keeps [OF assms(1), of "createMergedScrollOptions options s"] Pair assms(2)
    by simp_all
  show ?thesis
  proof (cases a)
    case (Inl e)
    then show ?thesis
      using Pair k by (simp add: Scroller_by_def scrollBy_def request_def resolved_def)
  next
    case (Inr r)
    then show ?thesis
      using Pair k
      by (simp add: Scroller_by_def scrollBy_def request_def setScrollToResult_def resolved_def)
  qed
qed

text \<open>
  Claim C3, amended. An animated request overwrites the field \<^verbatim>\<open>_scrollToResult\<close> with
  the new result within the one synchronous call, after the engine has accepted the
  request, and the controller cancels nothing on the way: the results of the engine are
  left as the engine returned them. With the engine of the specification the animation
  that was tracked before is therefore still in flight after the call. It is
  \<^verbatim>\<open>cancel()\<close> that cancels the tracked result, which resolves its promise, and
  empties the field.
\<close>

theorem request_replaces_slot:
  "(engine (createMergedScrollOptions options s) h = (Inr r, h1) \<longrightarrow>
      fst (request engine options s h) = Inr r
      \<and> fst (snd (request engine options s h)) = s\<lparr>scrollToResult := Some r\<rparr>
      \<and> results (snd (snd (request engine options s h))) = results h1)
   \<and> (scrollToResult s = Some p \<and> p < length (results h) \<and> results h ! p = InFlight \<longrightarrow>
        \<not> resolved p (snd (snd (Scroller_by scrollBy diffX diffY options s h))))
   \<and> (scrollToResult s = Some p \<longrightarrow>
        cancel s h = (s\<lparr>scrollToResult := None\<rparr>, resultCancel p h))
   \<and> (p < length (results h) \<and> results h ! p = InFlight \<longrightarrow> resolved p (resultCancel p h))"
proof (intro conjI impI)
  assume e: "engine (createMergedScrollOptions options s) h = (Inr r, h1)"
  show "fst (request engine options s h) = Inr r"
    using e by (simp add: request_def setScrollToResult_def)
  show "fst (snd (request engine options s h)) = s\<lparr>scrollToResult := Some r\<rparr>"
    using e by (simp add: request_def setScrollToResult_def)
  show "results (snd (snd (request engine options s h))) = results h1"
    using e by (simp add: request_def setScrollToResult_def)
next
  assume "scrollToResult s = Some p \<and> p < length (results h) \<and> results h ! p = InFlight"
  then show "\<not> resolved p (snd (snd (Scroller_by scrollBy diffX diffY options s h)))"
    using by_keeps_in_flight by blast
next
  assume "scrollToResult s = Some p"
  then show "cancel s h = (s\<lparr>scrollToResult := None\<rparr>, resultCancel p h)"
    by (simp add: cancel_def clearScrollToResult_def)
next
  assume "p < length (results h) \<and> results h ! p = InFlight"
  then show "resolved p (resultCancel p h)"
    by (simp add: resultCancel_def settle_def resolved_def)
qed

text \<open>The two requests of \<open>twoRequests\<close>, evaluated.\<close>

lemma firstRequest_eq:
  "Scroller_by scrollBy 0 100 noOptions (fst (demoRunning AxisY)) (snd (demoRunning AxisY)) =
     (Inr 0, (fst (demoRunning AxisY))\<lparr>scrollToResult := Some 0\<rparr>, demoHost\<lparr>results := [InFlight]\<rparr>)"
  by (simp add: demoRunning_eq Scroller_by_def scrollBy_def request_def animate_def
        createMergedScrollOptions_def noOptions_def setScrollToResult_def resolved_def)

lemma twoRequests_eq:
  "twoRequests =
     (Inr 1, (fst (demoRunning AxisY))\<lparr>scrollToResult := Some 1\<rparr>,
      demoHost\<lparr>results := [InFlight, InFlight]\<rparr>)"
proof -
  have "twoRequests =
      Scroller_by scrollBy 0 50 noOptions ((fst (demoRunning AxisY))\<lparr>scrollToResult := Some 0\<rparr>)
        (demoHost\<lparr>results := [InFlight]\<rparr>)"
    by (simp add: twoRequests_def case_prod_beta firstRequest_eq)
  then show ?thesis
    by (simp add: demoRunning_eq Scroller_by_def scrollBy_def request_def animate_def
        createMergedScrollOptions_def noOptions_def setScrollToResult_def resolved_def)
qed

text \<open>
  Claim C3 as stated fails. The first request returns result 0 and is tracked; the
  second returns result 1 and takes its place in the field, and result 0 is still in
  flight: its promise has not resolved.
\<close>

theorem second_request_counterexample:
  "fst (Scroller_by scrollBy 0 100 noOptions (fst (demoRunning AxisY)) (snd (demoRunning AxisY))) = Inr 0
   \<and> scrollToResult (fst (snd (Scroller_by scrollBy 0 100 noOptions
          (fst (demoRunning AxisY)) (snd (demoRunning AxisY))))) = Some 0
   \<and> fst twoRequests = Inr 1
   \<and> scrollToResult (fst (snd twoRequests)) = Some 1
   \<and> results (snd (snd twoRequests)) = [InFlight, InFlight]
   \<and> \<not> resolved 0 (snd (snd twoRequests))"
  by (simp add: firstRequest_eq twoRequests_eq resolved_def)

text \<open>The amended claim at the second request of \<open>twoRequests\<close>.\<close>

theorem request_replaces_slot_witness:
  "scrollBy 0 50 (createMergedScrollOptions noOptions ((fst (demoRunning AxisY))\<lparr>scrollToResult := Some 0\<rparr>))
       (demoHost\<lparr>results := [InFlight]\<rparr>)
     = (Inr 1, demoHost\<lparr>results := [InFlight, InFlight]\<rparr>)
   \<and> scrollToResult ((fst (demoRunning AxisY))\<lparr>scrollToResult := Some 0\<rparr>) = Some 0
   \<and> (0::nat) < length (results (demoHost\<lparr>results := [InFlight]\<rparr>))
   \<and> results (demoHost\<lparr>results := [InFlight]\<rparr>) ! 0 = InFlight
   \<and> fst (snd (request (scrollBy 0 50) noOptions ((fst (demoRunning AxisY))\<lparr>scrollToResult := Some 0\<rparr>)
                 (demoHost\<lparr>results := [InFlight]\<rparr>)))
       = (fst (demoRunning AxisY))\<lparr>scrollToResult := Some 1\<rparr>
   \<and> \<not> resolved 0 (snd (snd (Scroller_by scrollBy 0 50 noOptions
                 ((fst (demoRunning AxisY))\<lparr>scrollToResult := Some 0\<rparr>) (demoHost\<lparr>results := [InFlight]\<rparr>))))
   \<and> cancel ((fst (demoRunning AxisY))\<lparr>scrollToResult := Some 0\<rparr>) (demoHost\<lparr>results := [InFlight]\<rparr>)
       = ((fst (demoRunning AxisY))\<lparr>scrollToResult := None\<rparr>,
          resultCancel 0 (demoHost\<lparr>results := [InFlight]\<rparr>))
   \<and> resolved 0 (resultCancel 0 (demoHost\<lparr>results := [InFlight]\<rparr>))"
proof -
  have e: "scrollBy 0 50 (createMergedScrollOptions noOptions ((fst (demoRunning AxisY))\<lparr>scrollToResult := Some 0\<rparr>))
       (demoHost\<lparr>results := [InFlight]\<rparr>)
     = (Inr 1, demoHost\<lparr>results := [InFlight, InFlight]\<rparr>)"
    by (simp add: demoRunning_eq scrollBy_def animate_def
          createMergedScrollOptions_def noOptions_def)
  show ?thesis
    using request_replaces_slot [of "scrollBy 0 50" noOptions
        "(fst (demoRunning AxisY))\<lparr>scrollToResult := Some 0\<rparr>" "demoHost\<lparr>results := [InFlight]\<rparr>"
        1 "demoHost\<lparr>results := [InFlight, InFlight]\<rparr>" 0 0 50] e
    by simp
qed


subsection \<open>Lifecycle\<close>

lemma stop_el [simp]: "el (snd (stop s)) = el s"
  by (simp add: stop_def setState_def emit_def stopListeners_def Let_def split: option.splits)

lemma cancel_el [simp]: "el (fst (cancel s h)) = el s"
  by (simp add: cancel_def clearScrollToResult_def split: option.splits)










text \<open>Binding an element to a pending controller, in closed form.\<close>

lemma settle_host [simp]:
  "dom (settle st p h) = dom h"
  "docClientWidth (settle st p h) = docClientWidth h"
  "docClientHeight (settle st p h) = docClientHeight h"
  "scrollSuppressed (settle st p h) = scrollSuppressed h"
  by (simp_all add: settle_def)


lemma cancel_fields [simp]:
  "emitted (fst (cancel s h)) = emitted s"
  "containerWidth (fst (cancel s h)) = containerWidth s"
  "containerHeight (fst (cancel s h)) = containerHeight s"
  by (simp_all add: cancel_def clearScrollToResult_def split: option.splits)


lemma startScrollSizeOvserver_simps [simp]:
  "state (fst (startScrollSizeOvserver s h)) = state s"
  "scrollListener (fst (startScrollSizeOvserver s h)) = scrollListener s"
  "emitted (fst (startScrollSizeOvserver s h)) = emitted s"
  by (simp_all add: startScrollSizeOvserver_def stopScrollSizeOvserver_def setTimer_def
        split: option.splits prod.splits)

lemma stopListeners_simps [simp]:
  "state (stopListeners s) = state s"
  "el (stopListeners s) = el s"
  "emitted (stopListeners s) = emitted s"
  by (simp_all add: stopListeners_def Let_def)







subsection \<open>scrollToSide\<close>

lemma scrollToSide_pos_x:
  "scrollToSide targets container = Inr p \<Longrightarrow>
   pos_x p =
     (if SideRight \<in> set (sidesOf targets) then map_option el_scrollWidth container
      else if SideTop \<in> set (sidesOf targets) then None
      else if SideLeft \<in> set (sidesOf targets) then Some 0
      else None)"
  by (auto simp: scrollToSide_def Let_def arrIncludes_iff split: option.splits if_splits)

text \<open>
  Claim C9. When the side list contains \<open>top\<close>, the horizontal target is set exactly
  when the list also contains \<open>right\<close>: the \<open>left\<close> branch is the \<open>else\<close> of the
  \<open>top\<close> test. A request for \<open>[top, left]\<close> or \<open>[left, top]\<close> sets only \<open>y = 0\<close>
  and leaves the horizontal axis unset, whatever the container is.
\<close>

theorem scrollToSide_top_skips_left:
  "(SideTop \<in> set (sidesOf targets) \<and> scrollToSide targets container = Inr p
      \<longrightarrow> (pos_x p \<noteq> None) = (SideRight \<in> set (sidesOf targets)))
   \<and> scrollToSide (Sides [SideTop, SideLeft]) container = Inr \<lparr>pos_x = None, pos_y = Some 0\<rparr>
   \<and> scrollToSide (Sides [SideLeft, SideTop]) container = Inr \<lparr>pos_x = None, pos_y = Some 0\<rparr>"
proof (intro conjI impI)
  assume h: "SideTop \<in> set (sidesOf targets) \<and> scrollToSide targets container = Inr p"
  then have "pos_x p =
     (if SideRight \<in> set (sidesOf targets) then map_option el_scrollWidth container else None)"
    using scrollToSide_pos_x [of targets container p] by simp
  moreover have "SideRight \<in> set (sidesOf targets) \<Longrightarrow> container \<noteq> None"
    using h by (auto simp: scrollToSide_def Let_def arrIncludes_iff split: option.splits)
  ultimately show "(pos_x p \<noteq> None) = (SideRight \<in> set (sidesOf targets))"
    by auto
next
  show "scrollToSide (Sides [SideTop, SideLeft]) container = Inr \<lparr>pos_x = None, pos_y = Some 0\<rparr>"
    by (simp add: scrollToSide_def Let_def arrIncludes_iff)
next
  show "scrollToSide (Sides [SideLeft, SideTop]) container = Inr \<lparr>pos_x = None, pos_y = Some 0\<rparr>"
    by (simp add: scrollToSide_def Let_def arrIncludes_iff)
qed

text \<open>Claim C9 at \<open>[top, right]\<close> on a container that is 1200 wide.\<close>

theorem scrollToSide_top_skips_left_witness:
  "SideTop \<in> set (sidesOf (Sides [SideTop, SideRight]))
   \<and> scrollToSide (Sides [SideTop, SideRight])
         (Some \<lparr>clientWidth = 300, clientHeight = 200, el_scrollWidth = 1200,
                 el_scrollHeight = 1000, el_scrollTop = 40, el_scrollLeft = 10,
                 el_isDocumentElement = False, el_isBodyElement = False\<rparr>)
       = Inr \<lparr>pos_x = Some 1200, pos_y = Some 0\<rparr>
   \<and> (pos_x \<lparr>pos_x = Some 1200, pos_y = Some 0\<rparr> \<noteq> None)
       = (SideRight \<in> set (sidesOf (Sides [SideTop, SideRight])))"
  using scrollToSide_top_skips_left
    [of "Sides [SideTop, SideRight]"
        "Some \<lparr>clientWidth = 300, clientHeight = 200, el_scrollWidth = 1200,
                el_scrollHeight = 1000, el_scrollTop = 40, el_scrollLeft = 10,
                el_isDocumentElement = False, el_isBodyElement = False\<rparr>"
        "\<lparr>pos_x = Some 1200, pos_y = Some 0\<rparr>"]
  by (simp add: scrollToSide_def Let_def)

end
